theory Spec2Isabelle
  imports Main "HOL-Library.Multiset"
begin

section \<open>ObservableCollection (src/core/collections/ObservableCollection.ts)\<close>

text \<open>
  An \<open>IndexableItem\<close> pairs an item with an index; \<open>ItemAdd\<close> and \<open>ItemRemove\<close> add
  nothing to it.  Indices are JavaScript numbers; the model takes them as integers, so that
  the negative ones the range checks reject can be written.  Items are compared with
  \<open>===\<close>; the model's items are the object references (or primitive values), so HOL
  equality stands for it.
\<close>

record 'a IndexableItem =
  item :: 'a
  index :: int

text \<open>The comparators handed to \<open>Array.prototype.sort\<close>.\<close>

definition sortByIndex :: "'a IndexableItem \<Rightarrow> 'a IndexableItem \<Rightarrow> int" where
  "sortByIndex a b = (if index a > index b then 1 else if index a < index b then -1 else 0)"

definition sortByIndexReverse :: "'a IndexableItem \<Rightarrow> 'a IndexableItem \<Rightarrow> int" where
  "sortByIndexReverse a b = sortByIndex a b * -1"

text \<open>
  \<open>Array.prototype.sort\<close> with a comparator is a stable sort (ECMAScript 2019): an element
  goes before the first element it does not compare greater than.
\<close>

fun insert_by :: "('b \<Rightarrow> 'b \<Rightarrow> int) \<Rightarrow> 'b \<Rightarrow> 'b list \<Rightarrow> 'b list" where
  "insert_by cmp x [] = [x]"
| "insert_by cmp x (y # ys) = (if cmp x y \<le> 0 then x # y # ys else y # insert_by cmp x ys)"

definition array_sort :: "('b \<Rightarrow> 'b \<Rightarrow> int) \<Rightarrow> 'b list \<Rightarrow> 'b list" where
  "array_sort cmp xs = foldr (insert_by cmp) xs []"

text \<open>
  \<open>Array.prototype.splice(start, deleteCount, ...items)\<close>: a negative start counts from
  the end, a start beyond the length is the length; the call returns the deleted elements.
\<close>

definition relative_start :: "int \<Rightarrow> nat \<Rightarrow> nat" where
  "relative_start start len =
     (if start < 0 then nat (max (int len + start) 0) else min (nat start) len)"

definition array_splice :: "'a list \<Rightarrow> int \<Rightarrow> nat \<Rightarrow> 'a list \<Rightarrow> 'a list" where
  "array_splice xs start deleteCount ins =
     (let k = relative_start start (length xs)
      in take k xs @ ins @ drop (k + deleteCount) xs)"

definition array_splice_deleted :: "'a list \<Rightarrow> int \<Rightarrow> nat \<Rightarrow> 'a list" where
  "array_splice_deleted xs start deleteCount =
     (let k = relative_start start (length xs) in take deleteCount (drop k xs))"

text \<open>\<open>Array.prototype.indexOf\<close>: the first position of the item, or -1.\<close>

fun indexOf :: "'a list \<Rightarrow> 'a \<Rightarrow> int" where
  "indexOf [] x = -1"
| "indexOf (y # ys) x =
     (if y = x then 0 else (let r = indexOf ys x in if r < 0 then -1 else r + 1))"

record EventMap =
  adding :: string
  added :: string
  moving :: string
  moved :: string
  removing :: string
  removed :: string

definition default_EventMap :: EventMap where
  "default_EventMap =
     \<lparr>adding = ''adding'', added = ''added'', moving = ''moving'', moved = ''moved'',
      removing = ''removing'', removed = ''removed''\<rparr>"

text \<open>
  What a call does besides returning: \<open>Emit name payload\<close> is a call of
  \<open>super.emit(name, payload)\<close>, \<open>Splice start deleteCount inserted deleted\<close> is a call of
  \<open>this.items.splice\<close> together with the elements it took out.  The collection keeps them
  in the order they happened.
\<close>

datatype 'a effect =
    Emit string "'a IndexableItem list"
  | Splice int nat "'a list" "'a list"

text \<open>
  The errors a call on the collection ends with: \<open>IndexOutOfRangeError\<close> with the index, a
  plain \<open>Error\<close> with its message, whose interpolated index is kept apart, the error of
  \<open>EventEmitter\<close> for an \<open>error\<close> event nobody listens to, and whatever a listener throws.
\<close>

datatype error =
    IndexOutOfRangeError int
  | JsError string int
  | ERR_UNHANDLED_ERROR
  | ThrownByListener string

text \<open>
  The collection is an \<open>EventEmitter\<close>.  A listener is registered for an event name; it is
  given the payload and returns or throws.  Listeners are taken not to call back into the
  collection.
\<close>

record 'a ObservableCollection =
  items :: "'a list"
  eventMap :: EventMap
  listeners :: "(string \<times> ('a IndexableItem list \<Rightarrow> error option)) list"
  trace :: "'a effect list"

text \<open>
  \<open>EventEmitter.prototype.emit\<close>: an event named \<open>error\<close> that has no listener throws;
  otherwise the listeners of the name are called in the order they were registered, and
  what one of them throws leaves \<open>emit\<close>, the later ones not being called.
\<close>

fun run_listeners :: "('p \<Rightarrow> error option) list \<Rightarrow> 'p \<Rightarrow> error option" where
  "run_listeners [] payload = None"
| "run_listeners (handler # handlers) payload =
     (case handler payload of Some e \<Rightarrow> Some e | None \<Rightarrow> run_listeners handlers payload)"

definition emit_error ::
  "string \<Rightarrow> 'p \<Rightarrow> (string \<times> ('p \<Rightarrow> error option)) list \<Rightarrow> error option" where
  "emit_error name payload ls =
     (let handlers = map snd (filter (\<lambda>l. fst l = name) ls)
      in if name = ''error'' \<and> handlers = [] then Some ERR_UNHANDLED_ERROR
         else run_listeners handlers payload)"

definition emit ::
  "string \<Rightarrow> 'a IndexableItem list \<Rightarrow> 'a ObservableCollection
   \<Rightarrow> error option \<times> 'a ObservableCollection" where
  "emit name payload c =
     (emit_error name payload (listeners c), c\<lparr>trace := trace c @ [Emit name payload]\<rparr>)"

definition do_splice :: "int \<Rightarrow> nat \<Rightarrow> 'a list \<Rightarrow> 'a ObservableCollection \<Rightarrow> 'a ObservableCollection" where
  "do_splice start deleteCount ins c =
     c\<lparr>items := array_splice (items c) start deleteCount ins,
       trace := trace c @ [Splice start deleteCount ins (array_splice_deleted (items c) start deleteCount)]\<rparr>"

text \<open>The loop of \<open>_add\<close>: \<open>this.items.splice(items[i].index, 0, items[i].item)\<close>.\<close>

fun add_loop :: "'a IndexableItem list \<Rightarrow> 'a ObservableCollection \<Rightarrow> 'a ObservableCollection" where
  "add_loop [] c = c"
| "add_loop (e # es) c = add_loop es (do_splice (index e) 0 [item e] c)"

text \<open>
  \<open>_add\<close>: sort the batch, emit, splice every entry in, emit.  An \<open>emit\<close> that throws ends
  the call there.
\<close>

definition priv_add ::
  "'a ObservableCollection \<Rightarrow> 'a IndexableItem list \<Rightarrow> error option \<times> 'a ObservableCollection" where
  "priv_add c changes =
     (let sorted_items = array_sort sortByIndex changes;
          (thrown, c1) = emit (adding (eventMap c)) sorted_items c
      in case thrown of
           Some e \<Rightarrow> (Some e, c1)
         | None \<Rightarrow>
             (let c2 = add_loop sorted_items c1
              in emit (added (eventMap c)) sorted_items c2))"

text \<open>The loop of \<open>_remove\<close>: \<open>this.items.splice(items[i].index, 1)\<close>.\<close>

fun remove_loop :: "'a IndexableItem list \<Rightarrow> 'a ObservableCollection \<Rightarrow> 'a ObservableCollection" where
  "remove_loop [] c = c"
| "remove_loop (e # es) c = remove_loop es (do_splice (index e) 1 [] c)"

text \<open>
  \<open>_remove\<close>: sort the batch in reverse, emit, splice every entry out, emit.  An \<open>emit\<close>
  that throws ends the call there.
\<close>

definition priv_remove ::
  "'a ObservableCollection \<Rightarrow> 'a IndexableItem list \<Rightarrow> error option \<times> 'a ObservableCollection" where
  "priv_remove c changes =
     (let sorted_items = array_sort sortByIndexReverse changes;
          (thrown, c1) = emit (removing (eventMap c)) sorted_items c
      in case thrown of
           Some e \<Rightarrow> (Some e, c1)
         | None \<Rightarrow>
             (let c2 = remove_loop sorted_items c1
              in emit (removed (eventMap c)) sorted_items c2))"

text \<open>
  The public operations return the error they throw, if any, and the collection after the
  call.  \<open>insert\<close>, \<open>remove\<close> and \<open>removeAll\<close> carry the suffix \<open>_oc\<close>.
\<close>

definition insert_oc :: "'a ObservableCollection \<Rightarrow> int \<Rightarrow> 'a \<Rightarrow> error option \<times> 'a ObservableCollection" where
  "insert_oc c idx x =
     (if idx < 0 \<or> idx > int (length (items c)) then (Some (IndexOutOfRangeError idx), c)
      else priv_add c [\<lparr>item = x, index = idx\<rparr>])"

definition add :: "'a ObservableCollection \<Rightarrow> 'a list \<Rightarrow> error option \<times> 'a ObservableCollection" where
  "add c args =
     (let change = map (\<lambda>i. \<lparr>item = args ! i, index = int (length (items c)) + int i\<rparr>)
                       [0..<length args]
      in priv_add c change)"

definition clear :: "'a ObservableCollection \<Rightarrow> error option \<times> 'a ObservableCollection" where
  "clear c =
     (let changes = map (\<lambda>i. \<lparr>item = items c ! i, index = int i\<rparr>) [0..<length (items c)]
      in priv_remove c changes)"

fun remove_changes :: "'a list \<Rightarrow> 'a list \<Rightarrow> 'a IndexableItem list" where
  "remove_changes xs [] = []"
| "remove_changes xs (it # rest) =
     (let itemIndex = indexOf xs it
      in if itemIndex < 0 then remove_changes xs rest
         else \<lparr>item = it, index = itemIndex\<rparr> # remove_changes xs rest)"

definition remove_oc :: "'a ObservableCollection \<Rightarrow> 'a list \<Rightarrow> error option \<times> 'a ObservableCollection" where
  "remove_oc c args = priv_remove c (remove_changes (items c) args)"

definition removeAt :: "'a ObservableCollection \<Rightarrow> int \<Rightarrow> error option \<times> 'a ObservableCollection" where
  "removeAt c idx =
     (if idx < 0 \<or> idx \<ge> int (length (items c))
      then (Some (JsError ''Index out of bouds when removing at index '' idx), c)
      else priv_remove c [\<lparr>item = items c ! nat idx, index = idx\<rparr>])"

text \<open>
  \<open>removeAll\<close> returns whether anything was removed, unless \<open>_remove\<close> throws; the filter
  sees the item, its index and the array, and may be missing.
\<close>

definition removeAll_oc ::
  "'a ObservableCollection \<Rightarrow> ('a \<Rightarrow> nat \<Rightarrow> 'a list \<Rightarrow> bool) option
   \<Rightarrow> (error + bool) \<times> 'a ObservableCollection" where
  "removeAll_oc c filter_opt =
     (case filter_opt of
        None \<Rightarrow> (Inr False, c)
      | Some flt \<Rightarrow>
          if length (items c) \<le> 0 then (Inr False, c)
          else
            (let toRemove = map (\<lambda>i. \<lparr>item = items c ! i, index = int i\<rparr>)
                                (filter (\<lambda>i. flt (items c ! i) i (items c)) [0..<length (items c)])
             in if length toRemove = 0 then (Inr False, c)
                else
                  (let (thrown, c1) = priv_remove c toRemove
                   in case thrown of Some e \<Rightarrow> (Inl e, c1) | None \<Rightarrow> (Inr True, c1))))"

text \<open>The constructor: no items, no listeners.\<close>

definition new_collection :: "EventMap \<Rightarrow> 'a ObservableCollection" where
  "new_collection em = \<lparr>items = [], eventMap = em, listeners = [], trace = []\<rparr>"

text \<open>\<open>on(name, listener)\<close> of \<open>EventEmitter\<close>: the listener is registered last.\<close>

definition on :: "string \<Rightarrow> ('a IndexableItem list \<Rightarrow> error option) \<Rightarrow> 'a ObservableCollection \<Rightarrow> 'a ObservableCollection" where
  "on name listener c = c\<lparr>listeners := listeners c @ [(name, listener)]\<rparr>"



section \<open>Member and Field (value inheritance)\<close>

text \<open>
  A value is what \<open>SimpleValue\<close> holds: \<open>equals\<close> is structural, so HOL equality stands
  for it; \<open>clone\<close> builds a value with the same content, which the model writes as the
  value itself; \<open>set\<close> replaces the content and notifies the listeners.  A change-set
  carries the value before and the value after.
\<close>

record 'v Change =
  change_from :: 'v
  change_to :: 'v

definition clone :: "'v \<Rightarrow> 'v" where
  "clone v = v"

definition equals :: "'v \<Rightarrow> 'v \<Rightarrow> bool" where
  "equals a b = (a = b)"

text \<open>
  Modelled from the spec: \<open>applyChangeSet\<close> of a value is not in the sources.  The spec has
  the Field apply the Member's change-set to its own value; for a simple value that leaves
  the value the change-set leads to.
\<close>

definition applyChangeSet :: "'v Change \<Rightarrow> 'v \<Rightarrow> 'v" where
  "applyChangeSet change v = change_to change"

record 'v Member =
  m_name :: string
  m_value :: 'v

record 'v Field =
  f_name :: string
  f_isInheriting :: bool
  f_value :: 'v

text \<open>The events a Member and a Field emit, named after the keys of \<open>Events\<close>.\<close>

datatype 'v emitted =
    project_member_valueChanging "'v Change"
  | project_member_valueChanged "'v Change"
  | member_valueChanging "'v Change"
  | member_valueChanged "'v Change"
  | field_valueChanging "'v Change"
  | field_valueChanged "'v Change"
  | field_inheritedChanging
  | field_inheritedChanged
  | field_resetStart
  | field_resetEnd

text \<open>
  A Field keeps a reference to its Member and listens to it, so the state the Field's
  methods work on holds both, and the events emitted so far.
\<close>

record 'v FieldState =
  member :: "'v Member"
  field :: "'v Field"
  emitted :: "'v emitted list"

definition emit_ev :: "'v emitted \<Rightarrow> 'v FieldState \<Rightarrow> 'v FieldState" where
  "emit_ev e s = s\<lparr>emitted := emitted s @ [e]\<rparr>"

text \<open>
  The constructor: \<open>_isInheriting = true\<close>, \<open>_value = member.value.clone()\<close>.  The
  methods of the Field follow, their leading underscore dropped.
\<close>

definition new_Field :: "'v Member \<Rightarrow> 'v FieldState" where
  "new_Field m =
     \<lparr>member = m,
      field = \<lparr>f_name = m_name m, f_isInheriting = True, f_value = clone (m_value m)\<rparr>,
      emitted = []\<rparr>"

definition setIsInheriting :: "bool \<Rightarrow> 'v FieldState \<Rightarrow> 'v FieldState" where
  "setIsInheriting isInheriting s =
     (if f_isInheriting (field s) = isInheriting then s
      else
        (let s1 = emit_ev field_inheritedChanging s;
             s2 = s1\<lparr>field := (field s1)\<lparr>f_isInheriting := isInheriting\<rparr>\<rparr>
         in emit_ev field_inheritedChanged s2))"

definition onValueChanging :: "'v Change \<Rightarrow> 'v FieldState \<Rightarrow> 'v FieldState" where
  "onValueChanging change s = emit_ev (field_valueChanging change) s"

definition onValueChanged :: "'v Change \<Rightarrow> 'v FieldState \<Rightarrow> 'v FieldState" where
  "onValueChanged change s =
     (let s1 = (if \<not> equals (m_value (member s)) (f_value (field s))
                then setIsInheriting False s else s)
      in emit_ev (field_valueChanged change) s1)"

definition onReset :: "'v FieldState \<Rightarrow> 'v FieldState" where
  "onReset s =
     (let s1 = emit_ev field_resetStart s;
          s2 = setIsInheriting True s1
      in emit_ev field_resetEnd s2)"

definition reset :: "'v FieldState \<Rightarrow> 'v FieldState" where
  "reset s = onReset s"

definition onInheritedValueChanged :: "'v Change \<Rightarrow> 'v FieldState \<Rightarrow> 'v FieldState" where
  "onInheritedValueChanged change s =
     s\<lparr>field := (field s)\<lparr>f_value := applyChangeSet change (f_value (field s))\<rparr>\<rparr>"

text \<open>
  \<open>_onMemberValueChanged\<close>; the state is the one reached when the promise of
  \<open>applyChangeSet\<close> has resolved and its continuation has run.
\<close>

definition onMemberValueChanged :: "'v Change \<Rightarrow> 'v FieldState \<Rightarrow> 'v FieldState" where
  "onMemberValueChanged change s =
     (if f_isInheriting (field s)
      then onValueChanged change (onInheritedValueChanged change (onValueChanging change s))
      else s)"

text \<open>
  \<open>Member._onValueChanging\<close> and \<open>Member._onValueChanged\<close>: each emits on the project and
  then on the Member.
\<close>

definition member_onValueChanging :: "'v Change \<Rightarrow> 'v FieldState \<Rightarrow> 'v FieldState" where
  "member_onValueChanging change s =
     emit_ev (member_valueChanging change) (emit_ev (project_member_valueChanging change) s)"

definition member_onValueChanged :: "'v Change \<Rightarrow> 'v FieldState \<Rightarrow> 'v FieldState" where
  "member_onValueChanged change s =
     emit_ev (member_valueChanged change) (emit_ev (project_member_valueChanged change) s)"

text \<open>
  Modelled from the spec: the event side of a value (\<open>on\<close>, and what \<open>set\<close> notifies) is not
  in the sources.  \<open>member.value.set(v)\<close> replaces the content, as \<open>SimpleValue\<close> does, and
  notifies the listeners: those of the Member run around the update, and the Field listens
  to the Member's \<open>valueChanged\<close>.
\<close>

definition member_value_set :: "'v \<Rightarrow> 'v FieldState \<Rightarrow> 'v FieldState" where
  "member_value_set v s =
     (let change = \<lparr>change_from = m_value (member s), change_to = v\<rparr>;
          s1 = member_onValueChanging change s;
          s2 = s1\<lparr>member := (member s1)\<lparr>m_value := v\<rparr>\<rparr>;
          s3 = member_onValueChanged change s2
      in onMemberValueChanged change s3)"

text \<open>
  Modelled from the spec: the event side of a value is not in the sources.
  \<open>field.value.set(v)\<close> replaces the content and notifies the listeners: those of the Field
  run around the update (\<open>_onValueChanging\<close>, \<open>_onValueChanged\<close>).
\<close>

definition field_value_set :: "'v \<Rightarrow> 'v FieldState \<Rightarrow> 'v FieldState" where
  "field_value_set v s =
     (let change = \<lparr>change_from = f_value (field s), change_to = v\<rparr>;
          s1 = onValueChanging change s;
          s2 = s1\<lparr>field := (field s1)\<lparr>f_value := v\<rparr>\<rparr>
      in onValueChanged change s2)"

section \<open>Project and Orchestrator\<close>

text \<open>
  Objects are held in a store and named by their references, so that \<open>===\<close> on objects is
  equality of references and a parent link can point back at the owner of a collection.
  Every reference denotes an object, as in the source.  A Member is kept by value in its
  Model's list and carries its own reference as its identity.  Identifiers are opaque; the
  model counts them.
\<close>

type_synonym ref = nat
type_synonym uid = nat

datatype QualifiedObjectType = Namespace | Model | Instance

record 'v IMember =
  mem_ref :: ref
  mem_id :: uid
  mem_name :: string
  mem_value :: 'v

text \<open>
  A Field of an Instance, as \<open>new Field(instance, member, value)\<close> builds it: kept by value
  in its Instance's list, with a reference of its own.
\<close>

record 'v IField =
  fld_ref :: ref
  fld_instance :: ref
  fld_member :: "'v IMember"
  fld_value :: 'v

record 'v QualifiedObject =
  q_type :: QualifiedObjectType
  q_id :: uid
  q_name :: string
  q_parent :: "ref option"
  q_children :: "ref list"
  q_models :: "ref list"
  q_instances :: "ref list"
  q_members :: "'v IMember list"
  q_fields :: "'v IField list"
  q_model :: "ref option"

datatype 'v RfcAction =
    NamespaceCreateAction ref int
  | ModelCreateAction ref int
  | InstanceCreateAction ref int
  | MemberCreateAction ref "'v IMember" int
  | MemberDeleteAction "'v IMember"
  | MemberGetAction ref
  | MemberReorderAction "'v IMember" int int
  | BatchedActions "'v RfcAction list"
  | RenameAction ref string
  | MoveAction ref ref
  | ReorderAction ref int int
  | FieldGetAction ref
  | MemberValueChangeAction "'v IMember" 'v 'v
  | FieldValueChangeAction "'v IField" 'v 'v
  | NamespaceGetChildrenAction ref
  | ModelGetChildrenAction ref
  | InstanceGetChildrenAction ref
  | NamespaceUpdateAction ref
  | ModelUpdateAction ref
  | InstanceUpdateAction ref
  | NamespaceGetByIdAction uid
  | ModelGetByIdAction uid
  | InstanceGetByIdAction uid

datatype ArgumentReason = SourceNotValid | SourceIsRoot | SourceHasNoParent | ToNotInProject

text \<open>
  The errors of the Orchestrator.  \<open>OtherError\<close> is a plain \<open>Error\<close> with its message,
  \<open>ErrorAtIndex\<close> a plain \<open>Error\<close> whose message interpolates an index, kept apart;
  \<open>TypeError\<close> and \<open>ReferenceError\<close> are the runtime's, for a property read of \<open>undefined\<close>
  or \<open>null\<close> and for a name that is not bound.
\<close>

datatype 'v OrchestratorError =
    ArgumentError ArgumentReason
  | NameCollisionError
  | RfcError "'v RfcAction" string
  | DuplicateIdError uid
  | OtherError string
  | ErrorAtIndex string int
  | IndexOutOfRange int
  | ObjectDoesNotExistError uid
  | TypeError
  | ReferenceError string

text \<open>
  How an asynchronous operation ends: it resolves with a value, rejects with an error, or
  never settles.
\<close>

datatype ('e, 'r) promise = Resolved 'r | Rejected 'e | Pending

text \<open>
  Who an event is emitted on: the observable or the collection of an object, an object, the
  project, a Member or the Model it belongs to, a Field.
\<close>

datatype event_source =
    OfObservable ref | OfCollection ref | OfObject ref | OfProject
  | OfMember ref | OfModelOfMember ref | OfField ref

datatype registered = RegObject ref | RegMember ref

record 'v Project =
  p_root :: ref
  objects :: "ref \<Rightarrow> 'v QualifiedObject"
  allocated :: nat
  registry :: "uid \<rightharpoonup> registered"
  next_uid :: uid
  submitted :: "'v RfcAction list"
  p_events :: "(event_source \<times> string) list"

text \<open>\<open>emit([...])\<close> of utils/Eventing: the events of the list, in order.\<close>

definition emit_all :: "(event_source \<times> string) list \<Rightarrow> 'v Project \<Rightarrow> 'v Project" where
  "emit_all evs p = p\<lparr>p_events := p_events p @ evs\<rparr>"

text \<open>
  Modelled from the spec: the Identity Registry (UidWarden) is not in the sources.
  \<open>generate\<close> produces a fresh identifier.
\<close>

definition generate :: "'v Project \<Rightarrow> uid \<times> 'v Project" where
  "generate p = (next_uid p, p\<lparr>next_uid := Suc (next_uid p)\<rparr>)"

text \<open>
  Modelled from the spec: \<open>register\<close> of the Identity Registry, not in the sources, binds
  an identifier to an object and fails with \<open>DuplicateIdError\<close> when the identifier is
  already bound.
\<close>

definition register :: "uid \<Rightarrow> registered \<Rightarrow> 'v Project \<Rightarrow> 'v OrchestratorError option \<times> 'v Project" where
  "register i obj p =
     (case registry p i of
        Some _ \<Rightarrow> (Some (DuplicateIdError i), p)
      | None \<Rightarrow> (None, p\<lparr>registry := (registry p)(i \<mapsto> obj)\<rparr>))"

text \<open>\<open>new Namespace(...)\<close>, \<open>new Model(...)\<close>, \<open>new Instance(...)\<close>, \<open>new Member(...)\<close>: a fresh reference.\<close>

definition new_ref :: "'v Project \<Rightarrow> ref \<times> 'v Project" where
  "new_ref p = (allocated p, p\<lparr>allocated := Suc (allocated p)\<rparr>)"

definition new_object :: "'v QualifiedObject \<Rightarrow> 'v Project \<Rightarrow> ref \<times> 'v Project" where
  "new_object obj p =
     (allocated p, p\<lparr>objects := (objects p)(allocated p := obj), allocated := Suc (allocated p)\<rparr>)"

definition blank_object :: "QualifiedObjectType \<Rightarrow> uid \<Rightarrow> string \<Rightarrow> ref option \<Rightarrow> 'v QualifiedObject" where
  "blank_object ty i name parent =
     \<lparr>q_type = ty, q_id = i, q_name = name, q_parent = parent, q_children = [], q_models = [],
      q_instances = [], q_members = [], q_fields = [], q_model = None\<rparr>"

text \<open>
  Modelled from the spec: \<open>qualifiedName\<close> (QualifiedObject.ts) is not in the sources.  It
  is derived from the names of the ancestors, joined by dots; the root's is empty, as
  \<open>createNamespace\<close> relies on.  The walk up the parents is bounded by the number of
  objects there are; a chain of parents that does not end gives no name.
\<close>

fun qualifiedName_upto :: "nat \<Rightarrow> (ref \<Rightarrow> 'v QualifiedObject) \<Rightarrow> ref \<Rightarrow> string option" where
  "qualifiedName_upto 0 h r = None"
| "qualifiedName_upto (Suc n) h r =
     (case q_parent (h r) of
        None \<Rightarrow> Some (q_name (h r))
      | Some parent \<Rightarrow>
          (case qualifiedName_upto n h parent of
             None \<Rightarrow> None
           | Some pq \<Rightarrow> Some (if pq = '''' then q_name (h r) else pq @ ''.'' @ q_name (h r))))"

text \<open>
  Modelled from the spec: the getter \<open>qualifiedName\<close>, not in the sources, as the bounded
  walk above with the number of objects as the bound.
\<close>

definition qualifiedName :: "'v Project \<Rightarrow> ref \<Rightarrow> string option" where
  "qualifiedName p r = qualifiedName_upto (allocated p) (objects p) r"

text \<open>\<open>String.prototype.split\<close> on one character, and \<open>Array.prototype.join\<close>.\<close>

fun split_on :: "char \<Rightarrow> string \<Rightarrow> string list" where
  "split_on c [] = [[]]"
| "split_on c (x # xs) =
     (if x = c then [] # split_on c xs
      else (case split_on c xs of [] \<Rightarrow> [[x]] | w # ws \<Rightarrow> (x # w) # ws))"

fun join_with :: "string \<Rightarrow> string list \<Rightarrow> string" where
  "join_with sep [] = ''''"
| "join_with sep [x] = x"
| "join_with sep (x # y # ys) = x @ sep @ join_with sep (y # ys)"

text \<open>
  Modelled from the spec: the qualified-path utility \<open>basename\<close> is not in the sources.
  With the dot as separator, it is what follows the last dot.
\<close>

definition basename :: "string \<Rightarrow> string" where
  "basename path = last (split_on CHR ''.'' path)"

text \<open>
  Modelled from the spec: the qualified-path utility \<open>parentPath\<close> is not in the sources.
  It is what precedes the last dot, the empty path for a name without a dot; the empty
  path has no parent path.
\<close>

definition parentPath :: "string \<Rightarrow> string option" where
  "parentPath path =
     (if path = '''' then None else Some (join_with ''.'' (butlast (split_on CHR ''.'' path))))"

text \<open>
  Modelled from the spec: \<open>get(name)\<close> of a collection of qualified objects
  (NamespaceCollection and its siblings) is not in the sources.  It is the item of that
  name, or undefined.
\<close>

definition collection_get :: "(ref \<Rightarrow> 'v QualifiedObject) \<Rightarrow> ref list \<Rightarrow> string \<Rightarrow> ref option" where
  "collection_get h refs name = find (\<lambda>r. q_name (h r) = name) refs"

text \<open>
  \<open>Project.get\<close>.  The loop over the tokens of the parent path walks down from the root.
  The refresh of the object found (\<open>result.update()\<close>) is not modelled: the local state is
  taken as up to date.
\<close>

fun walk_tokens :: "(ref \<Rightarrow> 'v QualifiedObject) \<Rightarrow> ref \<Rightarrow> string list \<Rightarrow> ref option" where
  "walk_tokens h current [] = Some current"
| "walk_tokens h current (token # tokens) =
     (case collection_get h (q_children (h current)) token of
        None \<Rightarrow> None
      | Some child \<Rightarrow> walk_tokens h child tokens)"

definition project_get :: "'v Project \<Rightarrow> QualifiedObjectType \<Rightarrow> string \<Rightarrow> ref option" where
  "project_get p qualifiedType qualifiedPath =
     (if qualifiedPath = '''' \<and> qualifiedType = Namespace then Some (p_root p)
      else
        (case parentPath qualifiedPath of
           None \<Rightarrow> None
         | Some parentQPath \<Rightarrow>
             (let tokens = filter (\<lambda>it. it \<noteq> '''') (split_on CHR ''.'' parentQPath)
              in case walk_tokens (objects p) (p_root p) tokens of
                   None \<Rightarrow> None
                 | Some current \<Rightarrow>
                     (let baseQPath = basename qualifiedPath
                      in case qualifiedType of
                           Namespace \<Rightarrow> collection_get (objects p) (q_children (objects p current)) baseQPath
                         | Model \<Rightarrow> collection_get (objects p) (q_models (objects p current)) baseQPath
                         | Instance \<Rightarrow> collection_get (objects p) (q_instances (objects p current)) baseQPath))))"

text \<open>
  Modelled from the spec: the RFC pipeline (RequestForChangeSource) is not in the sources.
  \<open>commit\<close> submits the action to the router; the fulfil callback runs only when the
  resolver accepts, and it is the only place where local state changes; when the resolver
  declines, the reject callback runs if one is registered, and the rejection surfaces as
  the error it throws, or as \<open>RfcError\<close>.  The resolver answers with the cause when it
  declines.
\<close>

definition rfc_commit ::
  "('v RfcAction \<Rightarrow> string option) \<Rightarrow> 'v RfcAction
   \<Rightarrow> ('v Project \<Rightarrow> 'v OrchestratorError option \<times> 'v Project)
   \<Rightarrow> ('v RfcAction \<Rightarrow> string \<Rightarrow> 'v OrchestratorError) option
   \<Rightarrow> 'v Project \<Rightarrow> 'v OrchestratorError option \<times> 'v Project" where
  "rfc_commit resolver action fulfill reject p =
     (let p1 = p\<lparr>submitted := submitted p @ [action]\<rparr>
      in case resolver action of
           None \<Rightarrow> fulfill p1
         | Some cause \<Rightarrow>
             (case reject of
                Some handler \<Rightarrow> (Some (handler action cause), p1)
              | None \<Rightarrow> (Some (RfcError action cause), p1)))"

text \<open>
  \<open>await ... .commit()\<close> followed by \<open>return x\<close>: an error thrown by the pipeline rejects
  the operation, otherwise the operation resolves with the value, which may depend on the
  state the callback has left.
\<close>

definition settle ::
  "('v Project \<Rightarrow> 'r) \<Rightarrow> 'v OrchestratorError option \<times> 'v Project
   \<Rightarrow> ('v OrchestratorError, 'r) promise \<times> 'v Project" where
  "settle result committed =
     (case fst committed of
        None \<Rightarrow> (Resolved (result (snd committed)), snd committed)
      | Some e \<Rightarrow> (Rejected e, snd committed))"

text \<open>
  Modelled from the spec: the same pipeline, for an operation whose fulfil callback assigns
  a variable of the operation that the operation then returns.  The callback gives the
  value it has assigned, unless it throws.
\<close>

definition rfc_commit_returning ::
  "('v RfcAction \<Rightarrow> string option) \<Rightarrow> 'v RfcAction
   \<Rightarrow> ('v Project \<Rightarrow> ('v OrchestratorError + 'r) \<times> 'v Project)
   \<Rightarrow> ('v RfcAction \<Rightarrow> string \<Rightarrow> 'v OrchestratorError) option
   \<Rightarrow> 'v Project \<Rightarrow> ('v OrchestratorError + 'r) \<times> 'v Project" where
  "rfc_commit_returning resolver action fulfill reject p =
     (let p1 = p\<lparr>submitted := submitted p @ [action]\<rparr>
      in case resolver action of
           None \<Rightarrow> fulfill p1
         | Some cause \<Rightarrow>
             (case reject of
                Some handler \<Rightarrow> (Inl (handler action cause), p1)
              | None \<Rightarrow> (Inl (RfcError action cause), p1)))"

text \<open>
  \<open>await ... .commit()\<close> followed by \<open>return\<close> of the variable the callback has assigned.
\<close>

definition settle_returned ::
  "('v OrchestratorError + 'r) \<times> 'v Project \<Rightarrow> ('v OrchestratorError, 'r) promise \<times> 'v Project" where
  "settle_returned committed =
     (case fst committed of
        Inl e \<Rightarrow> (Rejected e, snd committed)
      | Inr x \<Rightarrow> (Resolved x, snd committed))"

text \<open>The collection of a Namespace that holds objects of a type, read and written.\<close>

definition collection_of :: "QualifiedObjectType \<Rightarrow> 'v QualifiedObject \<Rightarrow> ref list" where
  "collection_of ty obj =
     (case ty of Namespace \<Rightarrow> q_children obj | Model \<Rightarrow> q_models obj | Instance \<Rightarrow> q_instances obj)"

definition set_collection :: "QualifiedObjectType \<Rightarrow> ref list \<Rightarrow> 'v QualifiedObject \<Rightarrow> 'v QualifiedObject" where
  "set_collection ty refs obj =
     (case ty of
        Namespace \<Rightarrow> obj\<lparr>q_children := refs\<rparr>
      | Model \<Rightarrow> obj\<lparr>q_models := refs\<rparr>
      | Instance \<Rightarrow> obj\<lparr>q_instances := refs\<rparr>)"

text \<open>
  Modelled from the spec: the Composer is not in the sources.  \<open>composer.add\<close> inserts the
  new object into its parent's collection at the index.
\<close>

definition composer_add :: "ref \<Rightarrow> ref \<Rightarrow> int \<Rightarrow> 'v Project \<Rightarrow> 'v Project" where
  "composer_add obj parent idx p =
     (let ty = q_type (objects p obj);
          coll = collection_of ty (objects p parent)
      in p\<lparr>objects := (objects p)
             (parent := set_collection ty (array_splice coll idx 0 [obj]) (objects p parent))\<rparr>)"

text \<open>
  Modelled from the spec: \<open>composer.move\<close>, not in the sources, removes the object from
  the old parent's collection, puts it into the new one at the index and makes the
  destination its parent.
\<close>

definition composer_move :: "ref \<Rightarrow> ref \<Rightarrow> int \<Rightarrow> 'v Project \<Rightarrow> 'v Project" where
  "composer_move source to idx p =
     (let ty = q_type (objects p source);
          h1 = (case q_parent (objects p source) of
                  None \<Rightarrow> objects p
                | Some old \<Rightarrow>
                    (objects p)(old := set_collection ty
                       (filter (\<lambda>r. r \<noteq> source) (collection_of ty (objects p old))) (objects p old)));
          h2 = h1(to := set_collection ty (array_splice (collection_of ty (h1 to)) idx 0 [source]) (h1 to));
          h3 = h2(source := (h2 source)\<lparr>q_parent := Some to\<rparr>)
      in p\<lparr>objects := h3\<rparr>)"

subsection \<open>Creating qualified objects\<close>

text \<open>
  \<open>createNamespace\<close>, \<open>createModel\<close> and \<open>createInstance\<close> differ in the type of the object,
  in the collection of the parent whose length is the index, and in the action; the body
  they share is \<open>create_qualified\<close>.  Reading \<open>parent.qualifiedName\<close> comes first; the
  reject callback throws \<open>RfcError\<close>.
\<close>

definition create_action :: "QualifiedObjectType \<Rightarrow> ref \<Rightarrow> int \<Rightarrow> 'v RfcAction" where
  "create_action ty r idx =
     (case ty of
        Namespace \<Rightarrow> NamespaceCreateAction r idx
      | Model \<Rightarrow> ModelCreateAction r idx
      | Instance \<Rightarrow> InstanceCreateAction r idx)"

definition create_qualified ::
  "QualifiedObjectType \<Rightarrow> ref option \<Rightarrow> ('v RfcAction \<Rightarrow> string option) \<Rightarrow> 'v Project \<Rightarrow> ref \<Rightarrow> string
   \<Rightarrow> ('v OrchestratorError, ref) promise \<times> 'v Project" where
  "create_qualified ty model resolver p parent name =
     (case qualifiedName p parent of
        None \<Rightarrow> (Pending, p)
      | Some parentName \<Rightarrow>
          (let (i, p1) = generate p;
               (r, p2) = new_object ((blank_object ty i name (Some parent))\<lparr>q_model := model\<rparr>) p1;
               idx = int (length (collection_of ty (objects p2 parent)));
               action = create_action ty r idx
           in settle (\<lambda>p3. r)
                (rfc_commit resolver action
                   (\<lambda>q. case register i (RegObject r) q of
                           (Some e, q1) \<Rightarrow> (Some e, q1)
                         | (None, q1) \<Rightarrow> (None, composer_add r parent idx q1))
                   (Some RfcError) p2)))"

definition createNamespace ::
  "('v RfcAction \<Rightarrow> string option) \<Rightarrow> 'v Project \<Rightarrow> ref \<Rightarrow> string
   \<Rightarrow> ('v OrchestratorError, ref) promise \<times> 'v Project" where
  "createNamespace resolver p parent name = create_qualified Namespace None resolver p parent name"

definition createModel ::
  "('v RfcAction \<Rightarrow> string option) \<Rightarrow> 'v Project \<Rightarrow> ref \<Rightarrow> string
   \<Rightarrow> ('v OrchestratorError, ref) promise \<times> 'v Project" where
  "createModel resolver p parent name = create_qualified Model None resolver p parent name"

definition createInstance ::
  "('v RfcAction \<Rightarrow> string option) \<Rightarrow> 'v Project \<Rightarrow> ref \<Rightarrow> ref \<Rightarrow> string
   \<Rightarrow> ('v OrchestratorError, ref) promise \<times> 'v Project" where
  "createInstance resolver p parent model name =
     create_qualified Instance (Some model) resolver p parent name"

subsection \<open>Members\<close>

record 'v MemberCreateInfo =
  ci_name :: string
  ci_value :: 'v
  ci_index :: "int option"

text \<open>\<open>param.index || index\<close>: an index that is missing or zero gives way to the running one.\<close>

definition index_or :: "int option \<Rightarrow> int \<Rightarrow> int" where
  "index_or given running = (case given of None \<Rightarrow> running | Some i \<Rightarrow> if i = 0 then running else i)"

text \<open>The loop of \<open>createMembers\<close> over the parameters: one identifier, Member and index each.\<close>

fun createMembers_loop ::
  "'v MemberCreateInfo list \<Rightarrow> int \<Rightarrow> 'v Project \<Rightarrow> 'v IMember IndexableItem list \<times> 'v Project" where
  "createMembers_loop [] idx p = ([], p)"
| "createMembers_loop (param # params) idx p =
     (let (i, p1) = generate p;
          (r, p2) = new_ref p1;
          member = \<lparr>mem_ref = r, mem_id = i, mem_name = ci_name param, mem_value = ci_value param\<rparr>;
          (rest, p3) = createMembers_loop params (idx + 1) p2
      in (\<lparr>item = member, index = index_or (ci_index param) idx\<rparr> # rest, p3))"

text \<open>
  Modelled from the spec: \<open>customAdd\<close> of the collection is not in the sources.  It hands
  the caller's handler the change and a callback that commits a change; committing follows
  the rule of the batches: sorted by index ascending, then spliced in that order.
\<close>

definition custom_add_commit :: "'a list \<Rightarrow> 'a IndexableItem list \<Rightarrow> 'a list" where
  "custom_add_commit xs changes =
     items (add_loop (array_sort sortByIndex changes)
              \<lparr>items = xs, eventMap = default_EventMap, listeners = [], trace = []\<rparr>)"

text \<open>
  Modelled from the spec: \<open>customRemove\<close> of the collection is not in the sources.  Its
  change names every given item that is in the collection with its position, as \<open>remove\<close>
  does; committing a change follows the rule of the batches: sorted by index descending,
  then spliced out in that order.
\<close>

definition custom_remove_commit :: "'a list \<Rightarrow> 'a IndexableItem list \<Rightarrow> 'a list" where
  "custom_remove_commit xs changes =
     items (remove_loop (array_sort sortByIndexReverse changes)
              \<lparr>items = xs, eventMap = default_EventMap, listeners = [], trace = []\<rparr>)"

text \<open>
  Modelled from the spec: \<open>customMove\<close> of the collection is not in the sources.  A move
  takes the item out at one index and puts it in at the other, as the \<open>_move\<close> that
  ObservableCollection.ts keeps as a comment does.
\<close>

definition custom_move_commit :: "'a list \<Rightarrow> int \<Rightarrow> int \<Rightarrow> 'a list" where
  "custom_move_commit xs from_idx to_idx =
     array_splice (array_splice xs from_idx 1 []) to_idx 0 (array_splice_deleted xs from_idx 1)"

definition set_members :: "ref \<Rightarrow> 'v IMember list \<Rightarrow> 'v Project \<Rightarrow> 'v Project" where
  "set_members model ms p = p\<lparr>objects := (objects p)(model := (objects p model)\<lparr>q_members := ms\<rparr>)\<rparr>"

text \<open>
  The registrations of \<open>createMembers\<close> run in a \<open>forEach\<close> whose callback's result is
  dropped: a registration that fails does not reach the caller.
\<close>

fun register_each :: "'v IMember list \<Rightarrow> 'v Project \<Rightarrow> 'v Project" where
  "register_each [] p = p"
| "register_each (m # ms) p = register_each ms (snd (register (mem_id m) (RegMember (mem_ref m)) p))"

definition createMembers ::
  "('v RfcAction \<Rightarrow> string option) \<Rightarrow> 'v Project \<Rightarrow> ref \<Rightarrow> 'v MemberCreateInfo list
   \<Rightarrow> ('v OrchestratorError, 'v IMember IndexableItem list) promise \<times> 'v Project" where
  "createMembers resolver p model params =
     (let (created, p1) = createMembers_loop params (int (length (q_members (objects p model)))) p;
          actions = map (\<lambda>c. MemberCreateAction model (item c) (index c)) created
      in settle (\<lambda>p2. created)
           (rfc_commit resolver (BatchedActions actions)
             (\<lambda>q. let toAdd = created;
                       q1 = emit_all [(OfObservable model, ''adding''), (OfCollection model, ''adding''),
                                      (OfObject model, ''Model.MemberAdding''),
                                      (OfProject, ''Model.MemberAdding'')] q;
                       q2 = set_members model (custom_add_commit (q_members (objects q1 model)) toAdd) q1;
                       q3 = register_each (q_members (objects q2 model)) q2;
                       q4 = emit_all [(OfObservable model, ''added''), (OfCollection model, ''added''),
                                      (OfObject model, ''Model.MemberAdded''),
                                      (OfProject, ''Model.MemberAdded'')] q3
                   in (None, q4))
             (Some RfcError) p1))"

text \<open>
  The \<open>in\<close> operator on an array: the key is a property of the array, that is one of its
  indices written in decimal, \<open>length\<close>, or a property arrays inherit.  The inherited names
  are the runtime's, given as a parameter.
\<close>

definition digit_values :: "(char \<times> nat) list" where
  "digit_values =
     [(CHR ''0'', 0), (CHR ''1'', 1), (CHR ''2'', 2), (CHR ''3'', 3), (CHR ''4'', 4),
      (CHR ''5'', 5), (CHR ''6'', 6), (CHR ''7'', 7), (CHR ''8'', 8), (CHR ''9'', 9)]"

fun parse_index :: "nat \<Rightarrow> string \<Rightarrow> nat option" where
  "parse_index acc [] = Some acc"
| "parse_index acc (c # cs) =
     (case map_of digit_values c of None \<Rightarrow> None | Some d \<Rightarrow> parse_index (acc * 10 + d) cs)"

definition is_array_index :: "string \<Rightarrow> nat \<Rightarrow> bool" where
  "is_array_index key n =
     (key \<noteq> '''' \<and> (key = ''0'' \<or> hd key \<noteq> CHR ''0'')
      \<and> (case parse_index 0 key of None \<Rightarrow> False | Some i \<Rightarrow> i < n))"

definition js_in :: "string list \<Rightarrow> string \<Rightarrow> 'a list \<Rightarrow> bool" where
  "js_in inherited key arr =
     (is_array_index key (length arr) \<or> key = ''length'' \<or> key \<in> set inherited)"

text \<open>
  \<open>deleteMembers\<close>.  The Members to delete are those whose name is \<open>in\<close> the array of names;
  the result pairs each with its position before the request.  There is no reject
  callback.
\<close>

definition deleteMembers ::
  "string list \<Rightarrow> ('v RfcAction \<Rightarrow> string option) \<Rightarrow> 'v Project \<Rightarrow> ref \<Rightarrow> string list
   \<Rightarrow> ('v OrchestratorError, 'v IMember IndexableItem list) promise \<times> 'v Project" where
  "deleteMembers inherited resolver p model names =
     (let collection = q_members (objects p model);
          selected = filter (\<lambda>member. js_in inherited (mem_name member) names) collection;
          actions = map MemberDeleteAction selected;
          results = map (\<lambda>m. \<lparr>item = m, index = indexOf collection m\<rparr>) selected
      in settle (\<lambda>p1. results)
           (rfc_commit resolver (BatchedActions actions)
             (\<lambda>q. let change = remove_changes (q_members (objects q model)) selected;
                       q1 = emit_all [(OfObservable model, ''removing''), (OfCollection model, ''removing''),
                                      (OfObject model, ''Model.MemberRemoving''),
                                      (OfProject, ''Model.MemberRemoving'')] q;
                       q2 = set_members model (custom_remove_commit (q_members (objects q1 model)) change) q1;
                       q3 = emit_all [(OfObservable model, ''removed''), (OfCollection model, ''removed''),
                                      (OfObject model, ''Model.MemberRemoved''),
                                      (OfProject, ''Model.MemberRemoved'')] q2
                   in (None, q3))
             None p))"

subsection \<open>Renaming and moving\<close>

definition rename ::
  "('v RfcAction \<Rightarrow> string option) \<Rightarrow> 'v Project \<Rightarrow> ref \<Rightarrow> string
   \<Rightarrow> ('v OrchestratorError, ref) promise \<times> 'v Project" where
  "rename resolver p source newName =
     (let action = RenameAction source newName
      in settle (\<lambda>p1. source)
           (rfc_commit resolver action
             (\<lambda>q. let q1 = emit_all [(OfObject source, ''QualifiedObject.NameChanging''),
                                      (OfProject, ''QualifiedObject.NameChanging'')] q;
                       q2 = q1\<lparr>objects := (objects q1)(source := (objects q1 source)\<lparr>q_name := newName\<rparr>)\<rparr>;
                       q3 = emit_all [(OfObject source, ''QualifiedObject.NameChanged''),
                                      (OfProject, ''QualifiedObject.NameChanged'')] q2
                   in (None, q3))
             None p))"

text \<open>
  \<open>move\<close>.  The checks come in the order of the source: a missing source, the root, a
  source without parent, a destination that is already the parent, a destination that
  \<open>Project.get\<close> does not find under its qualified name, a name already taken in the
  destination's collection of the source's type; only then is the action submitted.
\<close>

definition move ::
  "('v RfcAction \<Rightarrow> string option) \<Rightarrow> 'v Project \<Rightarrow> ref option \<Rightarrow> ref
   \<Rightarrow> ('v OrchestratorError, ref) promise \<times> 'v Project" where
  "move resolver p source_opt to =
     (case source_opt of
        None \<Rightarrow> (Rejected (ArgumentError SourceNotValid), p)
      | Some source \<Rightarrow>
          if source = p_root p then (Rejected (ArgumentError SourceIsRoot), p)
          else if q_parent (objects p source) = None then (Rejected (ArgumentError SourceHasNoParent), p)
          else if q_parent (objects p source) = Some to then (Resolved source, p)
          else
            (case qualifiedName p to of
               None \<Rightarrow> (Pending, p)
             | Some toName \<Rightarrow>
                 (case project_get p Namespace toName of
                    None \<Rightarrow> (Rejected (ArgumentError ToNotInProject), p)
                  | Some found \<Rightarrow>
                      (let ty = q_type (objects p source);
                           exists = (collection_get (objects p) (collection_of ty (objects p to))
                                       (q_name (objects p source)) \<noteq> None)
                       in if exists then (Rejected NameCollisionError, p)
                          else
                            (let action = MoveAction source to
                             in settle (\<lambda>p1. source)
                                  (rfc_commit resolver action
                                     (\<lambda>q. (None, composer_move source to
                                                    (int (length (collection_of ty (objects q to)))) q))
                                     None p))))))"

subsection \<open>Reconciling the Members of a Model with the authority's list\<close>

record 'v MemberRestoreInfo =
  ri_id :: uid
  ri_name :: string
  ri_value :: 'v
  ri_index :: int

text \<open>What the resolver writes into a \<open>MemberGetAction\<close> it accepts.\<close>

record 'v MemberGetReply =
  contentsUpdated :: bool
  get_results :: "'v MemberRestoreInfo IndexableItem list"

datatype 'v sync_op =
    SyncAdd "'v IMember" int
  | SyncRemove "'v IMember" int
  | SyncMove "'v IMember" int int

text \<open>
  The handlers \<open>updateMembers\<close> hands to \<open>syncToMaster\<close>.  \<open>equal\<close> matches by identifier;
  \<open>add\<close> builds a new Member from the authority's item and adds it at the index; \<open>remove\<close>
  removes the Member at the index; \<open>move\<close> moves the Member found at \<open>from\<close>.  Each emits
  its four events before and after.
\<close>

definition sync_equal :: "'v MemberRestoreInfo \<Rightarrow> 'v IMember \<Rightarrow> bool" where
  "sync_equal master other = (ri_id master = mem_id other)"

definition member_events :: "ref \<Rightarrow> string \<Rightarrow> string \<Rightarrow> (event_source \<times> string) list" where
  "member_events model collection_event model_event =
     [(OfObservable model, collection_event), (OfCollection model, collection_event),
      (OfObject model, model_event), (OfProject, model_event)]"

definition sync_add :: "ref \<Rightarrow> 'v MemberRestoreInfo \<Rightarrow> int \<Rightarrow> 'v Project \<Rightarrow> 'v IMember \<times> 'v Project" where
  "sync_add model master idx p =
     (let (r, p1) = new_ref p;
          member = \<lparr>mem_ref = r, mem_id = ri_id master, mem_name = ri_name master,
                    mem_value = clone (ri_value master)\<rparr>;
          q1 = emit_all (member_events model ''adding'' ''Model.MemberAdding'') p1;
          q2 = set_members model
                 (custom_add_commit (q_members (objects q1 model)) [\<lparr>item = member, index = idx\<rparr>]) q1
      in (member, emit_all (member_events model ''added'' ''Model.MemberAdded'') q2))"

definition sync_remove :: "ref \<Rightarrow> 'v IMember \<Rightarrow> int \<Rightarrow> 'v Project \<Rightarrow> 'v Project" where
  "sync_remove model other idx p =
     (let q1 = emit_all (member_events model ''removing'' ''Model.MemberRemoving'') p;
          q2 = set_members model
                 (custom_remove_commit (q_members (objects q1 model)) [\<lparr>item = other, index = idx\<rparr>]) q1
      in emit_all (member_events model ''removed'' ''Model.MemberRemoved'') q2)"

definition sync_move :: "ref \<Rightarrow> 'v IMember \<Rightarrow> int \<Rightarrow> int \<Rightarrow> 'v Project \<Rightarrow> 'v Project" where
  "sync_move model other from_idx to_idx p =
     (let q1 = emit_all (member_events model ''moving'' ''Model.MemberMoving'') p;
          q2 = set_members model (custom_move_commit (q_members (objects q1 model)) from_idx to_idx) q1
      in emit_all (member_events model ''moved'' ''Model.MemberMoved'') q2)"

text \<open>The first position of a list where a predicate holds.\<close>

fun position_where :: "('a \<Rightarrow> bool) \<Rightarrow> 'a list \<Rightarrow> nat option" where
  "position_where P [] = None"
| "position_where P (x # xs) =
     (if P x then Some 0 else (case position_where P xs of None \<Rightarrow> None | Some i \<Rightarrow> Some (Suc i)))"

text \<open>
  Modelled from the spec: \<open>syncToMaster\<close> (utils/Collections) is not in the sources.  The
  first rule of its contract: an item of the master list that no local item matches is
  built by the factory and added at the master's index.
\<close>

fun sync_add_phase ::
  "ref \<Rightarrow> 'v MemberRestoreInfo list \<Rightarrow> int \<Rightarrow> 'v Project \<Rightarrow> 'v sync_op list \<times> 'v Project" where
  "sync_add_phase model [] idx p = ([], p)"
| "sync_add_phase model (master # rest) idx p =
     (case position_where (sync_equal master) (q_members (objects p model)) of
        Some j \<Rightarrow> sync_add_phase model rest (idx + 1) p
      | None \<Rightarrow>
          (let (member, p1) = sync_add model master idx p;
               (ops, p2) = sync_add_phase model rest (idx + 1) p1
           in (SyncAdd member idx # ops, p2)))"

text \<open>
  Modelled from the spec: the second rule of the contract of \<open>syncToMaster\<close>: a local item
  that no master item matches is removed.
\<close>

fun sync_remove_phase ::
  "ref \<Rightarrow> 'v MemberRestoreInfo list \<Rightarrow> 'v IMember list \<Rightarrow> 'v Project \<Rightarrow> 'v sync_op list \<times> 'v Project" where
  "sync_remove_phase model master [] p = ([], p)"
| "sync_remove_phase model master (other # rest) p =
     (case position_where (\<lambda>m. sync_equal m other) master of
        Some j \<Rightarrow> sync_remove_phase model master rest p
      | None \<Rightarrow>
          (let idx = indexOf (q_members (objects p model)) other;
               p1 = sync_remove model other idx p;
               (ops, p2) = sync_remove_phase model master rest p1
           in (SyncRemove other idx # ops, p2)))"

text \<open>
  Modelled from the spec: the third and fourth rule of the contract of \<open>syncToMaster\<close>: the
  target order is walked by index, and at each position the matching local item is located
  in the collection as it is now and, unless it is already at that position, moved there
  by one move.
\<close>

fun sync_move_phase ::
  "ref \<Rightarrow> 'v MemberRestoreInfo list \<Rightarrow> nat \<Rightarrow> 'v Project \<Rightarrow> 'v sync_op list \<times> 'v Project" where
  "sync_move_phase model [] i p = ([], p)"
| "sync_move_phase model (master # rest) i p =
     (case position_where (sync_equal master) (q_members (objects p model)) of
        None \<Rightarrow> sync_move_phase model rest (Suc i) p
      | Some j \<Rightarrow>
          if j = i then sync_move_phase model rest (Suc i) p
          else
            (let other = q_members (objects p model) ! j;
                 p1 = sync_move model other (int j) (int i) p;
                 (ops, p2) = sync_move_phase model rest (Suc i) p1
             in (SyncMove other (int j) (int i) # ops, p2)))"

text \<open>
  Modelled from the spec: \<open>syncToMaster\<close>, not in the sources, applies the rules of its
  contract in the spec's order, every operation through the handlers; the operations
  applied are returned with the state.
\<close>

definition syncToMaster ::
  "ref \<Rightarrow> 'v MemberRestoreInfo list \<Rightarrow> 'v Project \<Rightarrow> 'v sync_op list \<times> 'v Project" where
  "syncToMaster model master p =
     (let (added_ops, p1) = sync_add_phase model master 0 p;
          (removed_ops, p2) = sync_remove_phase model master (q_members (objects p1 model)) p1;
          (moved_ops, p3) = sync_move_phase model master 0 p2
      in (added_ops @ removed_ops @ moved_ops, p3))"

text \<open>
  \<open>updateMembers\<close>.  When the authority reports no change the Members are returned with
  their positions; otherwise its list is sorted by index, checked to be sequential and
  merged, and the result stays empty.
\<close>

fun sequential_from :: "int \<Rightarrow> 'v MemberRestoreInfo list \<Rightarrow> bool" where
  "sequential_from i [] = True"
| "sequential_from i (u # us) = (ri_index u = i \<and> sequential_from (i + 1) us)"

definition updateMembers ::
  "('v RfcAction \<Rightarrow> string option) \<Rightarrow> 'v MemberGetReply \<Rightarrow> 'v Project \<Rightarrow> ref
   \<Rightarrow> ('v OrchestratorError, 'v IMember IndexableItem list) promise \<times> 'v Project" where
  "updateMembers resolver reply p model =
     settle (\<lambda>p1. if contentsUpdated reply then []
                  else map (\<lambda>m. \<lparr>item = m, index = indexOf (q_members (objects p1 model)) m\<rparr>)
                         (q_members (objects p1 model)))
       (rfc_commit resolver (MemberGetAction model)
             (\<lambda>q. if \<not> contentsUpdated reply then (None, q)
                   else
                     (let unpacked = array_sort (\<lambda>a b. ri_index a - ri_index b)
                                       (map item (get_results reply))
                      in if \<not> sequential_from 0 unpacked
                         then (Some (OtherError ''Failed to retrieve an accurate list of Members. The indexes are not sequential.''), q)
                         else (None, snd (syncToMaster model unpacked q))))
             None p)"

subsection \<open>Reordering\<close>

text \<open>
  Modelled from the spec: \<open>composer.reorder\<close> is not in the sources.  On fulfilment it
  performs a single move within the owning collection.
\<close>

definition composer_reorder :: "QualifiedObjectType \<Rightarrow> ref \<Rightarrow> int \<Rightarrow> int \<Rightarrow> 'v Project \<Rightarrow> 'v Project" where
  "composer_reorder ty owner from_idx to_idx p =
     p\<lparr>objects := (objects p)
          (owner := set_collection ty
             (custom_move_commit (collection_of ty (objects p owner)) from_idx to_idx)
             (objects p owner))\<rparr>"

text \<open>
  \<open>reorder\<close>.  The action is the one \<open>composer.action.reorder\<close> builds.  In the fulfil
  callback the branch for a Namespace reads \<open>ns.parent.children\<close>; the branches for a Model
  and an Instance read \<open>ns.parent\<close> too, where no \<open>ns\<close> is bound.
\<close>

definition reorder ::
  "('v RfcAction \<Rightarrow> string option) \<Rightarrow> 'v Project \<Rightarrow> ref \<Rightarrow> int \<Rightarrow> int
   \<Rightarrow> ('v OrchestratorError, ref) promise \<times> 'v Project" where
  "reorder resolver p source from_idx to_idx =
     (let action = ReorderAction source from_idx to_idx
      in settle (\<lambda>p1. source)
           (rfc_commit resolver action
             (\<lambda>q. case q_type (objects q source) of
                     Namespace \<Rightarrow>
                       (case q_parent (objects q source) of
                          None \<Rightarrow> (Some TypeError, q)
                        | Some owner \<Rightarrow> (None, composer_reorder Namespace owner from_idx to_idx q))
                   | Model \<Rightarrow> (Some (ReferenceError ''ns''), q)
                   | Instance \<Rightarrow> (Some (ReferenceError ''ns''), q))
             None p))"

text \<open>
  Modelled from the spec: \<open>at\<close> of the Member collection is not in the sources; as \<open>at\<close> of
  ObservableCollection, it is the item at the index, or undefined.
\<close>

definition collection_at :: "'a list \<Rightarrow> int \<Rightarrow> 'a option" where
  "collection_at xs i = (if 0 \<le> i \<and> i < int (length xs) then Some (xs ! nat i) else None)"

text \<open>
  \<open>reorderMember\<close>.  A missing Member at \<open>from\<close> and a \<open>to\<close> outside \<open>[0, length]\<close> are
  thrown before anything is submitted.
\<close>

definition reorderMember ::
  "('v RfcAction \<Rightarrow> string option) \<Rightarrow> 'v Project \<Rightarrow> ref \<Rightarrow> int \<Rightarrow> int
   \<Rightarrow> ('v OrchestratorError, 'v IMember) promise \<times> 'v Project" where
  "reorderMember resolver p model from_idx to_idx =
     (case collection_at (q_members (objects p model)) from_idx of
        None \<Rightarrow> (Rejected (ErrorAtIndex ''A Member does not exist at that index'' from_idx), p)
      | Some mbr \<Rightarrow>
          if to_idx < 0 \<or> to_idx \<ge> int (length (q_members (objects p model))) + 1
          then (Rejected (IndexOutOfRange to_idx), p)
          else
            settle (\<lambda>p1. mbr)
              (rfc_commit resolver (MemberReorderAction mbr from_idx to_idx)
                (\<lambda>q. let q1 = emit_all (member_events model ''moving'' ''Model.MemberMoving'') q;
                          q2 = set_members model
                                 (custom_move_commit (q_members (objects q1 model)) from_idx to_idx) q1
                      in (None, emit_all (member_events model ''moved'' ''Model.MemberMoved'') q2))
                None p))"

subsection \<open>Changing values\<close>

text \<open>
  \<open>updateMemberValue\<close> and \<open>updateFieldValue\<close>.  The handler \<open>changeValue\<close> is the caller's:
  it changes the value, gives the updated one and may throw.  \<open>updateFieldValue\<close> emits on
  the Field under the names of the Member events.  What is returned is the variable the
  callback assigns.
\<close>

definition updateMemberValue ::
  "('v RfcAction \<Rightarrow> string option) \<Rightarrow> 'v Project \<Rightarrow> 'v IMember \<Rightarrow> 'v \<Rightarrow> 'v
   \<Rightarrow> ('v Project \<Rightarrow> ('v OrchestratorError + 'v) \<times> 'v Project)
   \<Rightarrow> ('v OrchestratorError, 'v) promise \<times> 'v Project" where
  "updateMemberValue resolver p mbr oldValue newValue changeValue =
     settle_returned
       (rfc_commit_returning resolver (MemberValueChangeAction mbr oldValue newValue)
          (\<lambda>q. let q1 = emit_all [(OfMember (mem_ref mbr), ''Member.ValueChanging''),
                                   (OfModelOfMember (mem_ref mbr), ''Model.ValueChanging''),
                                   (OfProject, ''Model.ValueChanging'')] q
                in case changeValue q1 of
                     (Inl e, q2) \<Rightarrow> (Inl e, q2)
                   | (Inr updatedValue, q2) \<Rightarrow>
                       (Inr updatedValue,
                        emit_all [(OfMember (mem_ref mbr), ''Member.ValueChanged''),
                                  (OfModelOfMember (mem_ref mbr), ''Model.ValueChanged''),
                                  (OfProject, ''Model.ValueChanged'')] q2))
          None p)"

definition updateFieldValue ::
  "('v RfcAction \<Rightarrow> string option) \<Rightarrow> 'v Project \<Rightarrow> 'v IField \<Rightarrow> 'v \<Rightarrow> 'v
   \<Rightarrow> ('v Project \<Rightarrow> ('v OrchestratorError + 'v) \<times> 'v Project)
   \<Rightarrow> ('v OrchestratorError, 'v) promise \<times> 'v Project" where
  "updateFieldValue resolver p fld oldValue newValue changeValue =
     settle_returned
       (rfc_commit_returning resolver (FieldValueChangeAction fld oldValue newValue)
          (\<lambda>q. let q1 = emit_all [(OfField (fld_ref fld), ''Member.ValueChanging''),
                                   (OfObject (fld_instance fld), ''Instance.FieldValueChanging''),
                                   (OfProject, ''Instance.FieldValueChanging'')] q
                in case changeValue q1 of
                     (Inl e, q2) \<Rightarrow> (Inl e, q2)
                   | (Inr updatedValue, q2) \<Rightarrow>
                       (Inr updatedValue,
                        emit_all [(OfField (fld_ref fld), ''Member.ValueChanged''),
                                  (OfObject (fld_instance fld), ''Instance.FieldValueChanged''),
                                  (OfProject, ''Instance.FieldValueChanged'')] q2))
          None p)"

subsection \<open>Refreshing qualified objects\<close>

text \<open>What the resolver writes into a get-children action it accepts.\<close>

record 'ri GetChildrenReply =
  gc_contentsUpdated :: bool
  gc_restore :: "'ri list option"

definition children_action :: "QualifiedObjectType \<Rightarrow> ref \<Rightarrow> 'v RfcAction" where
  "children_action ty parent =
     (case ty of
        Namespace \<Rightarrow> NamespaceGetChildrenAction parent
      | Model \<Rightarrow> ModelGetChildrenAction parent
      | Instance \<Rightarrow> InstanceGetChildrenAction parent)"

text \<open>
  \<open>updateQualifiedObjects\<close>.  \<open>Restore\<close> is not in the sources: \<open>restore.collection\<close>, with
  the factory handed to it, is the parameter \<open>restore_collection\<close>, given the type, the
  parent and the authority's list.
\<close>

definition updateQualifiedObjects ::
  "(QualifiedObjectType \<Rightarrow> ref \<Rightarrow> 'ri list \<Rightarrow> 'v Project \<Rightarrow> 'v OrchestratorError option \<times> 'v Project)
   \<Rightarrow> ('v RfcAction \<Rightarrow> string option) \<Rightarrow> 'ri GetChildrenReply \<Rightarrow> 'v Project
   \<Rightarrow> QualifiedObjectType \<Rightarrow> ref \<Rightarrow> ('v OrchestratorError, unit) promise \<times> 'v Project" where
  "updateQualifiedObjects restore_collection resolver reply p ty parent =
     settle (\<lambda>p1. ())
       (rfc_commit resolver (children_action ty parent)
          (\<lambda>q. if \<not> gc_contentsUpdated reply then (None, q)
                else
                  (case gc_restore reply of
                     None \<Rightarrow> (None, q)
                   | Some restore \<Rightarrow> restore_collection ty parent restore q))
          None p)"

text \<open>What the resolver writes into an update action it accepts.\<close>

record 'ri UpdateReply =
  up_contentsUpdated :: bool
  up_restore :: "'ri option"
  up_exists :: bool

text \<open>
  Modelled from the spec: \<open>composer.action.update\<close> is not in the sources; the action it
  builds is the update action of the object's type.
\<close>

definition update_action :: "QualifiedObjectType \<Rightarrow> ref \<Rightarrow> 'v RfcAction" where
  "update_action ty obj =
     (case ty of
        Namespace \<Rightarrow> NamespaceUpdateAction obj
      | Model \<Rightarrow> ModelUpdateAction obj
      | Instance \<Rightarrow> InstanceUpdateAction obj)"

text \<open>
  \<open>updateQualifiedObject\<close>.  \<open>orphan\<close> of a Namespace and \<open>restore.namespace\<close> are not in the
  sources; they are the parameters \<open>orphan\<close> and \<open>restore_namespace\<close>.  For a Model and an
  Instance the callback does nothing.
\<close>

definition updateQualifiedObject ::
  "(ref \<Rightarrow> 'v Project \<Rightarrow> 'v OrchestratorError option \<times> 'v Project)
   \<Rightarrow> (ref \<Rightarrow> 'ri \<Rightarrow> 'v Project \<Rightarrow> 'v OrchestratorError option \<times> 'v Project)
   \<Rightarrow> ('v RfcAction \<Rightarrow> string option) \<Rightarrow> 'ri UpdateReply \<Rightarrow> 'v Project \<Rightarrow> ref
   \<Rightarrow> ('v OrchestratorError, unit) promise \<times> 'v Project" where
  "updateQualifiedObject orphan restore_namespace resolver reply p obj =
     settle (\<lambda>p1. ())
       (rfc_commit resolver (update_action (q_type (objects p obj)) obj)
          (\<lambda>q. case q_type (objects q obj) of
                  Namespace \<Rightarrow>
                    if \<not> up_contentsUpdated reply \<or> up_restore reply = None then (None, q)
                    else if \<not> up_exists reply then orphan obj q
                    else
                      (case up_restore reply of
                         None \<Rightarrow> (None, q)
                       | Some restore \<Rightarrow> restore_namespace obj restore q)
                | Model \<Rightarrow> (None, q)
                | Instance \<Rightarrow> (None, q))
          None p)"

subsection \<open>Looking an object up by its identifier\<close>

definition getById_action :: "QualifiedObjectType \<Rightarrow> uid \<Rightarrow> 'v RfcAction" where
  "getById_action ty i =
     (case ty of
        Namespace \<Rightarrow> NamespaceGetByIdAction i
      | Model \<Rightarrow> ModelGetByIdAction i
      | Instance \<Rightarrow> InstanceGetByIdAction i)"

text \<open>
  Modelled from the spec: \<open>get\<close> of the Identity Registry is not in the sources.  It is
  what the identifier is bound to, or undefined.
\<close>

definition warden_get :: "'v Project \<Rightarrow> uid \<Rightarrow> registered option" where
  "warden_get p i = registry p i"

text \<open>
  \<open>getById\<close>.  An identifier that the registry knows is answered without a request.
  Otherwise the resolver writes the qualified path of the object into the action, if it
  knows the identifier (the parameter \<open>restore\<close>), and \<open>Project.get\<close> resolves the path.
\<close>

definition getById ::
  "('v RfcAction \<Rightarrow> string option) \<Rightarrow> string option \<Rightarrow> 'v Project \<Rightarrow> QualifiedObjectType \<Rightarrow> uid
   \<Rightarrow> ('v OrchestratorError, registered) promise \<times> 'v Project" where
  "getById resolver restore p ty i =
     (case warden_get p i of
        Some result \<Rightarrow> (Resolved result, p)
      | None \<Rightarrow>
          (let committed =
                 rfc_commit_returning resolver (getById_action ty i)
                   (\<lambda>q. case restore of
                           None \<Rightarrow> (Inl (ObjectDoesNotExistError i), q)
                         | Some qualifiedPath \<Rightarrow>
                             (case project_get q ty qualifiedPath of
                                None \<Rightarrow> (Inl (ObjectDoesNotExistError i), q)
                              | Some r \<Rightarrow> (Inr (Some (RegObject r)), q)))
                   None p
           in case fst committed of
                Inl e \<Rightarrow> (Rejected e, snd committed)
              | Inr None \<Rightarrow> (Rejected (ObjectDoesNotExistError i), snd committed)
              | Inr (Some result) \<Rightarrow> (Resolved result, snd committed)))"

subsection \<open>Reconciling the Fields of an Instance\<close>

record FieldRestoreInfo =
  fri_name :: string
  fri_index :: int

text \<open>What the resolver writes into a \<open>FieldGetAction\<close> it accepts.\<close>

record FieldGetReply =
  fg_contentsUpdated :: bool
  fg_results :: "FieldRestoreInfo IndexableItem list"

text \<open>
  The loop of \<open>updateFields\<close> over the authority's list: the Member of the item's name is
  looked up in the Model, and a Field is built on it with a clone of its value; a name
  without a Member throws.
\<close>

fun updateFields_loop ::
  "ref \<Rightarrow> 'v IMember list \<Rightarrow> FieldRestoreInfo IndexableItem list \<Rightarrow> 'v Project
   \<Rightarrow> ('v OrchestratorError + 'v IField IndexableItem list) \<times> 'v Project" where
  "updateFields_loop inst members [] p = (Inr [], p)"
| "updateFields_loop inst members (r # rs) p =
     (case find (\<lambda>m. mem_name m = fri_name (item r)) members of
        None \<Rightarrow>
          (Inl (OtherError (''Expected Member to exist ('' @ fri_name (item r)
                             @ '') does not exist in the Model'')), p)
      | Some mbr \<Rightarrow>
          (let (fresh, p1) = new_ref p;
               fld = \<lparr>fld_ref = fresh, fld_instance = inst, fld_member = mbr,
                      fld_value = clone (mem_value mbr)\<rparr>
           in case updateFields_loop inst members rs p1 of
                (Inl e, p2) \<Rightarrow> (Inl e, p2)
              | (Inr rest, p2) \<Rightarrow> (Inr (\<lparr>item = fld, index = fri_index (item r)\<rparr> # rest), p2)))"

text \<open>
  \<open>updateFields\<close>.  The Model is brought up to date first, by \<open>updateMembers\<close>, then the
  Instance, by \<open>updateQualifiedObject\<close>; each of the two submits an action of its own and
  may change the local state before the \<open>FieldGetAction\<close> is submitted.  An error of
  either ends the operation.  An Instance without Model throws when its Members are read.
\<close>

definition updateFields ::
  "(ref \<Rightarrow> 'v Project \<Rightarrow> 'v OrchestratorError option \<times> 'v Project)
   \<Rightarrow> (ref \<Rightarrow> 'ri \<Rightarrow> 'v Project \<Rightarrow> 'v OrchestratorError option \<times> 'v Project)
   \<Rightarrow> ('v RfcAction \<Rightarrow> string option) \<Rightarrow> 'v MemberGetReply \<Rightarrow> 'ri UpdateReply \<Rightarrow> FieldGetReply
   \<Rightarrow> 'v Project \<Rightarrow> ref
   \<Rightarrow> ('v OrchestratorError, 'v IField IndexableItem list) promise \<times> 'v Project" where
  "updateFields orphan restore_namespace resolver member_reply update_reply field_reply p inst =
     (case q_model (objects p inst) of
        None \<Rightarrow> (Rejected TypeError, p)
      | Some model \<Rightarrow>
          (case updateMembers resolver member_reply p model of
             (Rejected e, p1) \<Rightarrow> (Rejected e, p1)
           | (Pending, p1) \<Rightarrow> (Pending, p1)
           | (Resolved members_now, p1) \<Rightarrow>
               (case updateQualifiedObject orphan restore_namespace resolver update_reply p1 inst of
                  (Rejected e, p2) \<Rightarrow> (Rejected e, p2)
                | (Pending, p2) \<Rightarrow> (Pending, p2)
                | (Resolved u, p2) \<Rightarrow>
                    settle_returned
                      (rfc_commit_returning resolver (FieldGetAction inst)
                         (\<lambda>q. if \<not> fg_contentsUpdated field_reply
                               then (Inr (map (\<lambda>f. \<lparr>item = f, index = indexOf (q_fields (objects q inst)) f\<rparr>)
                                            (q_fields (objects q inst))), q)
                               else
                                 (case q_model (objects q inst) of
                                    None \<Rightarrow> (Inl TypeError, q)
                                  | Some m \<Rightarrow>
                                      updateFields_loop inst (q_members (objects q m))
                                        (fg_results field_reply) q))
                         None p2))))"

subsection \<open>Example projects\<close>

text \<open>The names arrays inherit in an ECMAScript 2019 runtime.\<close>

definition es2019_array_inherited :: "string list" where
  "es2019_array_inherited =
     [''constructor'', ''concat'', ''copyWithin'', ''fill'', ''find'', ''findIndex'', ''lastIndexOf'',
      ''pop'', ''push'', ''reverse'', ''shift'', ''unshift'', ''slice'', ''sort'', ''splice'',
      ''includes'', ''indexOf'', ''join'', ''keys'', ''entries'', ''values'', ''forEach'', ''filter'',
      ''flat'', ''flatMap'', ''map'', ''every'', ''some'', ''reduce'', ''reduceRight'',
      ''toLocaleString'', ''toString'', ''hasOwnProperty'', ''isPrototypeOf'',
      ''propertyIsEnumerable'', ''valueOf'', ''__proto__'', ''__defineGetter__'',
      ''__defineSetter__'', ''__lookupGetter__'', ''__lookupSetter__'']"

text \<open>
  A project whose root (0) holds the namespaces A (1) and B (2) and the model Unit (4); B
  holds a namespace A (3); the namespace Other (5) is in no namespace and holds a namespace
  A (6).  Unit has the Members \<open>hp\<close> and \<open>0\<close>.
\<close>

definition member_hp :: "nat IMember" where
  "member_hp = \<lparr>mem_ref = 7, mem_id = 107, mem_name = ''hp'', mem_value = 10\<rparr>"

definition member_0 :: "nat IMember" where
  "member_0 = \<lparr>mem_ref = 8, mem_id = 108, mem_name = ''0'', mem_value = 20\<rparr>"

definition example_objects :: "ref \<Rightarrow> nat QualifiedObject" where
  "example_objects =
     (\<lambda>r. blank_object Namespace 0 '''' None)
       (0 := (blank_object Namespace 100 '''' None)\<lparr>q_children := [1, 2], q_models := [4]\<rparr>,
        1 := blank_object Namespace 101 ''A'' (Some 0),
        2 := (blank_object Namespace 102 ''B'' (Some 0))\<lparr>q_children := [3]\<rparr>,
        3 := blank_object Namespace 103 ''A'' (Some 2),
        4 := (blank_object Model 104 ''Unit'' (Some 0))\<lparr>q_members := [member_hp, member_0]\<rparr>,
        5 := (blank_object Namespace 105 ''Other'' None)\<lparr>q_children := [6]\<rparr>,
        6 := blank_object Namespace 106 ''A'' (Some 5))"

definition example_project :: "nat Project" where
  "example_project =
     \<lparr>p_root = 0, objects = example_objects, allocated = 9, registry = Map.empty,
      next_uid = 109, submitted = [], p_events = []\<rparr>"

text \<open>
  A model (1) under the root whose Members A, B, C have the identifiers 1, 2, 3, and the
  authority's list C, A, D with the identifiers 3, 1, 4.
\<close>

definition member_A :: "nat IMember" where
  "member_A = \<lparr>mem_ref = 2, mem_id = 1, mem_name = ''A'', mem_value = 0\<rparr>"

definition member_B :: "nat IMember" where
  "member_B = \<lparr>mem_ref = 3, mem_id = 2, mem_name = ''B'', mem_value = 0\<rparr>"

definition member_C :: "nat IMember" where
  "member_C = \<lparr>mem_ref = 4, mem_id = 3, mem_name = ''C'', mem_value = 0\<rparr>"

definition abc_project :: "nat Project" where
  "abc_project =
     \<lparr>p_root = 0,
      objects = (\<lambda>r. blank_object Namespace 0 '''' None)
        (0 := (blank_object Namespace 100 '''' None)\<lparr>q_models := [1]\<rparr>,
         1 := (blank_object Model 101 ''M'' (Some 0))\<lparr>q_members := [member_A, member_B, member_C]\<rparr>),
      allocated = 5, registry = Map.empty, next_uid = 5, submitted = [], p_events = []\<rparr>"

definition cad_master :: "nat MemberRestoreInfo list" where
  "cad_master =
     [\<lparr>ri_id = 3, ri_name = ''C'', ri_value = 0, ri_index = 0\<rparr>,
      \<lparr>ri_id = 1, ri_name = ''A'', ri_value = 0, ri_index = 1\<rparr>,
      \<lparr>ri_id = 4, ri_name = ''D'', ri_value = 0, ri_index = 2\<rparr>]"

text \<open>What stays the same when an operation changes nothing locally.\<close>

definition local_state_unchanged :: "'v Project \<Rightarrow> 'v Project \<Rightarrow> bool" where
  "local_state_unchanged p p' =
     (p_root p' = p_root p \<and> (\<forall>r<allocated p. objects p' r = objects p r)
      \<and> registry p' = registry p \<and> p_events p' = p_events p)"

text \<open>
  An operation called in the state \<open>p\<close> has had its action declined when it rejects with
  \<open>RfcError\<close> for that action and the cause, the action is the one thing it has submitted,
  and the local state is the one of \<open>p\<close>.
\<close>

definition rejected_with ::
  "'v Project \<Rightarrow> 'v RfcAction \<Rightarrow> string
   \<Rightarrow> ('v OrchestratorError, 'r) promise \<times> 'v Project \<Rightarrow> bool" where
  "rejected_with p a cause res =
     (fst res = Rejected (RfcError a cause) \<and> submitted (snd res) = submitted p @ [a]
      \<and> local_state_unchanged p (snd res))"

text \<open>
  The project of the Members A, B, C with an Instance (5) of the model, which has one
  Field, on A.
\<close>

definition field_A :: "nat IField" where
  "field_A = \<lparr>fld_ref = 6, fld_instance = 5, fld_member = member_A, fld_value = 0\<rparr>"

definition abc_instance_project :: "nat Project" where
  "abc_instance_project =
     abc_project\<lparr>objects := (objects abc_project)
         (0 := (objects abc_project 0)\<lparr>q_instances := [5]\<rparr>,
          5 := (blank_object Instance 105 ''I'' (Some 0))\<lparr>q_fields := [field_A], q_model := Some 1\<rparr>),
       allocated := 7, next_uid := 106\<rparr>"

text \<open>
  The authority accepts what it is asked but the list of Fields, and reports the Members
  C, A, D.
\<close>

definition declines_FieldGet :: "nat RfcAction \<Rightarrow> string option" where
  "declines_FieldGet a = (case a of FieldGetAction i \<Rightarrow> Some ''declined'' | _ \<Rightarrow> None)"

definition cad_reply :: "nat MemberGetReply" where
  "cad_reply =
     \<lparr>contentsUpdated = True,
      get_results = map (\<lambda>u. \<lparr>item = u, index = ri_index u\<rparr>) cad_master\<rparr>"

text \<open>A resolver that declines the update of an Instance and accepts the rest.\<close>

definition declines_InstanceUpdate :: "nat RfcAction \<Rightarrow> string option" where
  "declines_InstanceUpdate a = (case a of InstanceUpdateAction i \<Rightarrow> Some ''declined'' | _ \<Rightarrow> None)"

text \<open>A resolver that declines everything.\<close>

definition declines_all :: "nat RfcAction \<Rightarrow> string option" where
  "declines_all a = Some ''declined''"

section \<open>Properties of ObservableCollection\<close>

lemma insert_by_sortByIndex: "insert_by sortByIndex x ys = insort_key index x ys"
  by (induction ys) (auto simp: sortByIndex_def)

lemma array_sort_sortByIndex: "array_sort sortByIndex xs = sort_key index xs"
  by (induction xs) (simp_all add: array_sort_def insert_by_sortByIndex)

lemma insert_by_sortByIndexReverse:
  "insert_by sortByIndexReverse x ys = insort_key (\<lambda>e. - index e) x ys"
  by (induction ys) (auto simp: sortByIndexReverse_def sortByIndex_def)

lemma array_sort_sortByIndexReverse:
  "array_sort sortByIndexReverse xs = sort_key (\<lambda>e. - index e) xs"
  by (induction xs) (simp_all add: array_sort_def insert_by_sortByIndexReverse)

lemma relative_start_in_range:
  "0 \<le> i \<Longrightarrow> i \<le> int n \<Longrightarrow> relative_start i n = nat i"
  by (simp add: relative_start_def min_def) linarith


lemma splice_delete_in_range:
  "0 \<le> i \<Longrightarrow> i < int (length xs) \<Longrightarrow> array_splice xs i (Suc 0) [] = take (nat i) xs @ drop (Suc (nat i)) xs"
  by (simp add: array_splice_def relative_start_in_range Let_def)

lemma splice_deleted_in_range:
  "0 \<le> i \<Longrightarrow> i < int (length xs) \<Longrightarrow> array_splice_deleted xs i (Suc 0) = [xs ! nat i]"
proof -
  assume a: "0 \<le> i" "i < int (length xs)"
  then have "nat i < length xs" by linarith
  then have "take (Suc 0) (drop (nat i) xs) = [xs ! nat i]"
    by (simp add: Cons_nth_drop_Suc [symmetric])
  with a show ?thesis by (simp add: array_splice_deleted_def relative_start_in_range)
qed




lemma nths_cong_below:
  assumes "\<And>j. j < length xs \<Longrightarrow> j \<in> A \<longleftrightarrow> j \<in> B"
  shows "nths xs A = nths xs B"
proof -
  have "filter (\<lambda>p. snd p \<in> A) (zip xs [0..<length xs]) =
        filter (\<lambda>p. snd p \<in> B) (zip xs [0..<length xs])"
  proof (rule filter_cong [OF refl])
    fix p assume "p \<in> set (zip xs [0..<length xs])"
    then have "snd p \<in> set [0..<length xs]" by (metis in_set_zipE prod.collapse)
    then show "(snd p \<in> A) = (snd p \<in> B)" using assms by simp
  qed
  then show ?thesis by (simp add: nths_def)
qed

lemma nths_everything: "(\<And>j. j < length xs \<Longrightarrow> j \<in> A) \<Longrightarrow> nths xs A = xs"
  by (simp add: nths_all)

lemma nths_delete_top:
  assumes i: "i < length xs" and I: "\<forall>j\<in>I. j < i"
  shows "nths (take i xs @ drop (Suc i) xs) (- I) = nths xs (- insert i I)"
proof -
  have xs: "xs = take i xs @ (xs ! i # drop (Suc i) xs)"
    using i by (simp add: id_take_nth_drop [symmetric])
  have l: "length (take i xs) = i" using i by simp
  have a: "nths (take i xs) (- insert i I) = nths (take i xs) (- I)"
    by (rule nths_cong_below) (use l in auto)
  have b: "nths (drop (Suc i) xs) {j. j + i \<in> - I} = drop (Suc i) xs"
    by (rule nths_everything) (use I in auto)
  have c: "nths (drop (Suc i) xs) {j. Suc j \<in> {j. j + i \<in> - insert i I}} = drop (Suc i) xs"
    by (rule nths_everything) (use I in auto)
  have L: "nths (take i xs @ drop (Suc i) xs) (- I) = nths (take i xs) (- I) @ drop (Suc i) xs"
    using b i by (simp add: nths_append min_absorb2)
  have "nths (take i xs @ (xs ! i # drop (Suc i) xs)) (- insert i I)
          = nths (take i xs) (- I) @ drop (Suc i) xs"
    using a c i by (simp add: nths_append nths_Cons min_absorb2)
  with xs L show ?thesis by simp
qed

lemma trace_remove_loop_exact:
  "sorted_wrt (>) (map index es) \<Longrightarrow>
   \<forall>e\<in>set es. 0 \<le> index e \<and> index e < int (length (items c)) \<and> items c ! nat (index e) = item e \<Longrightarrow>
     trace (remove_loop es c) = trace c @ map (\<lambda>e. Splice (index e) 1 [] [item e]) es
     \<and> items (remove_loop es c) = nths (items c) (- (nat ` index ` set es))"
proof (induction es arbitrary: c)
  case Nil
  then show ?case by (simp add: nths_everything)
next
  case (Cons e es)
  let ?c1 = "do_splice (index e) 1 [] c"
  let ?i = "nat (index e)"
  have r: "0 \<le> index e" "index e < int (length (items c))" "items c ! ?i = item e"
    using Cons.prems(2) by simp_all
  have i: "?i < length (items c)" using r by linarith
  have it1: "items ?c1 = take ?i (items c) @ drop (Suc ?i) (items c)"
    using r by (simp add: do_splice_def splice_delete_in_range)
  have tr1: "trace ?c1 = trace c @ [Splice (index e) 1 [] [item e]]"
    using r by (simp add: do_splice_def splice_deleted_in_range)
  have below: "\<forall>e'\<in>set es. 0 \<le> index e' \<and> index e' < index e"
    using Cons.prems by auto
  have len1: "length (items ?c1) = length (items c) - 1"
    unfolding it1 using i by simp
  have pre: "\<forall>e'\<in>set es. 0 \<le> index e' \<and> index e' < int (length (items ?c1))
               \<and> items ?c1 ! nat (index e') = item e'"
  proof
    fix e' assume e': "e' \<in> set es"
    with below have b: "0 \<le> index e'" "index e' < index e" by auto
    then have lt: "nat (index e') < ?i" by linarith
    have "items ?c1 ! nat (index e') = items c ! nat (index e')"
      unfolding it1 using lt i by (simp add: nth_append)
    moreover have "items c ! nat (index e') = item e'" using Cons.prems(2) e' by simp
    moreover have "index e' < int (length (items ?c1))" using lt i len1 b by linarith
    ultimately show "0 \<le> index e' \<and> index e' < int (length (items ?c1))
               \<and> items ?c1 ! nat (index e') = item e'" using b by simp
  qed
  have srt: "sorted_wrt (>) (map index es)" using Cons.prems(1) by simp
  from Cons.IH [OF srt pre]
  have IH: "trace (remove_loop es ?c1) = trace ?c1 @ map (\<lambda>e. Splice (index e) 1 [] [item e]) es"
    "items (remove_loop es ?c1) = nths (items ?c1) (- (nat ` index ` set es))"
    by simp_all
  have "\<forall>j\<in>nat ` index ` set es. j < ?i"
    using below by auto
  from nths_delete_top [OF i this]
  have "nths (items ?c1) (- (nat ` index ` set es)) = nths (items c) (- insert ?i (nat ` index ` set es))"
    unfolding it1 .
  with IH tr1 show ?case by simp
qed

lemma eventMap_add_loop [simp]: "eventMap (add_loop es c) = eventMap c"
  by (induction es arbitrary: c) (simp_all add: do_splice_def)

lemma eventMap_remove_loop [simp]: "eventMap (remove_loop es c) = eventMap c"
  by (induction es arbitrary: c) (simp_all add: do_splice_def)

lemma listeners_add_loop [simp]: "listeners (add_loop es c) = listeners c"
  by (induction es arbitrary: c) (simp_all add: do_splice_def)

lemma listeners_remove_loop [simp]: "listeners (remove_loop es c) = listeners c"
  by (induction es arbitrary: c) (simp_all add: do_splice_def)

lemma snd_emit [simp]:
  "items (snd (emit n p c)) = items c"
  "trace (snd (emit n p c)) = trace c @ [Emit n p]"
  "listeners (snd (emit n p c)) = listeners c"
  "eventMap (snd (emit n p c)) = eventMap c"
  "fst (emit n p c) = emit_error n p (listeners c)"
  by (simp_all add: emit_def)

text \<open>
  \<open>_add\<close> and \<open>_remove\<close> by the outcome of their first emission: when it returns, the loop
  runs and the second event is emitted; when it throws, the call ends with that and
  nothing is spliced.
\<close>

lemma priv_add_delivered:
  "emit_error (adding (eventMap c)) (array_sort sortByIndex b) (listeners c) = None \<Longrightarrow>
     priv_add c b =
       emit (added (eventMap c)) (array_sort sortByIndex b)
         (add_loop (array_sort sortByIndex b)
            (snd (emit (adding (eventMap c)) (array_sort sortByIndex b) c)))"
  by (simp add: priv_add_def Let_def split_beta)

lemma priv_add_thrown:
  "emit_error (adding (eventMap c)) (array_sort sortByIndex b) (listeners c) = Some e \<Longrightarrow>
     priv_add c b =
       (Some e, c\<lparr>trace := trace c @ [Emit (adding (eventMap c)) (array_sort sortByIndex b)]\<rparr>)"
  by (simp add: priv_add_def Let_def split_beta emit_def)

lemma priv_remove_delivered:
  "emit_error (removing (eventMap c)) (array_sort sortByIndexReverse b) (listeners c) = None \<Longrightarrow>
     priv_remove c b =
       emit (removed (eventMap c)) (array_sort sortByIndexReverse b)
         (remove_loop (array_sort sortByIndexReverse b)
            (snd (emit (removing (eventMap c)) (array_sort sortByIndexReverse b) c)))"
  by (simp add: priv_remove_def Let_def split_beta)

lemma priv_remove_thrown:
  "emit_error (removing (eventMap c)) (array_sort sortByIndexReverse b) (listeners c) = Some e \<Longrightarrow>
     priv_remove c b =
       (Some e, c\<lparr>trace := trace c @ [Emit (removing (eventMap c)) (array_sort sortByIndexReverse b)]\<rparr>)"
  by (simp add: priv_remove_def Let_def split_beta emit_def)




lemma sorted_neg_distinct:
  "sorted (map (\<lambda>e. - index e) xs) \<Longrightarrow> distinct (map index xs) \<Longrightarrow>
     sorted_wrt (\<lambda>a b. index a > index b) xs"
proof (induction xs)
  case Nil
  then show ?case by simp
next
  case (Cons a xs)
  have "\<forall>x\<in>set xs. index x < index a"
  proof
    fix x assume x: "x \<in> set xs"
    then have m: "index x \<in> index ` set xs" by (rule imageI)
    from Cons.prems(2) have "index a \<notin> index ` set xs" by simp
    with m have ne: "index x \<noteq> index a" by metis
    from Cons.prems(1) x have "index x \<le> index a" by simp
    with ne show "index x < index a" by simp
  qed
  with Cons show ?case by simp
qed

lemma distinct_sorted_indices:
  assumes "distinct (map index b)"
  shows "sorted_wrt (<) (map index (array_sort sortByIndex b))"
    and "sorted_wrt (>) (map index (array_sort sortByIndexReverse b))"
proof -
  have m: "mset (map index (sort_key index b)) = mset (map index b)" by simp
  have d: "distinct (map index (sort_key index b))"
    using assms mset_eq_imp_distinct_iff [OF m] by simp
  have "sorted (map index (sort_key index b))" by (rule sorted_sort_key)
  with d show "sorted_wrt (<) (map index (array_sort sortByIndex b))"
    by (simp add: array_sort_sortByIndex strict_sorted_iff)
  let ?n = "\<lambda>e::'a IndexableItem. - index e"
  have m2: "mset (map index (sort_key ?n b)) = mset (map index b)" by simp
  have d2: "distinct (map index (sort_key ?n b))"
    using assms mset_eq_imp_distinct_iff [OF m2] by simp
  have s2: "sorted (map ?n (sort_key ?n b))" by (rule sorted_sort_key)
  have "sorted_wrt (\<lambda>a b. index a > index b) (sort_key ?n b)"
    using s2 d2 by (rule sorted_neg_distinct)
  then show "sorted_wrt (>) (map index (array_sort sortByIndexReverse b))"
    by (simp add: array_sort_sortByIndexReverse sorted_wrt_map)
qed




text \<open>The definitions a concrete call of the collection unfolds to.\<close>

lemmas oc_eval = priv_add_def priv_remove_def array_sort_def sortByIndexReverse_def sortByIndex_def
  emit_def emit_error_def do_splice_def array_splice_def array_splice_deleted_def relative_start_def
  default_EventMap_def Let_def







text \<open>
  Claim C6.  \<open>removeAt\<close> with an index outside \<open>[0, length)\<close> leaves the collection as it
  was and emits nothing, but what it throws is a plain \<open>Error\<close>, not the
  \<open>IndexOutOfRangeError\<close> that \<open>insert\<close> throws: here \<open>removeAt(2)\<close> and \<open>insert(3, 9)\<close>
  on \<open>[1, 2]\<close>.
\<close>

theorem removeAt_raises_plain_error:
  "removeAt \<lparr>items = [1::nat, 2], eventMap = default_EventMap, listeners = [], trace = []\<rparr> 2
     = (Some (JsError ''Index out of bouds when removing at index '' 2),
        \<lparr>items = [1::nat, 2], eventMap = default_EventMap, listeners = [], trace = []\<rparr>)
   \<and> fst (removeAt \<lparr>items = [1::nat, 2], eventMap = default_EventMap, listeners = [], trace = []\<rparr> 2)
       \<noteq> Some (IndexOutOfRangeError 2)
   \<and> insert_oc \<lparr>items = [1::nat, 2], eventMap = default_EventMap, listeners = [], trace = []\<rparr> 3 9
     = (Some (IndexOutOfRangeError 3),
        \<lparr>items = [1::nat, 2], eventMap = default_EventMap, listeners = [], trace = []\<rparr>)"
  by (simp add: removeAt_def insert_oc_def)

text \<open>The same for every collection and every index out of range.\<close>

lemma insert_out_of_range:
  "idx < 0 \<or> idx > int (length (items c)) \<Longrightarrow> insert_oc c idx x = (Some (IndexOutOfRangeError idx), c)"
  by (simp add: insert_oc_def)

lemma removeAt_out_of_range:
  "idx < 0 \<or> idx \<ge> int (length (items c)) \<Longrightarrow>
     removeAt c idx = (Some (JsError ''Index out of bouds when removing at index '' idx), c)"
  by (simp add: removeAt_def)

text \<open>
  Claim C10.  \<open>remove\<close> looks every argument up in the list as it is before the call, so an
  argument given twice yields two entries with the same index, and the second splice takes
  out the element that has moved into that position: \<open>remove(1, 1)\<close> on \<open>[1, 2]\<close> also
  removes 2, which is not among the arguments.
\<close>

theorem remove_repeated_argument_removes_neighbour:
  "remove_oc \<lparr>items = [1::nat, 2], eventMap = default_EventMap, listeners = [], trace = []\<rparr> [1, 1]
     = (None,
        \<lparr>items = [], eventMap = default_EventMap, listeners = [],
         trace = [Emit ''removing'' [\<lparr>item = 1, index = 0\<rparr>, \<lparr>item = 1, index = 0\<rparr>],
                  Splice 0 1 [] [1], Splice 0 1 [] [2],
                  Emit ''removed'' [\<lparr>item = 1, index = 0\<rparr>, \<lparr>item = 1, index = 0\<rparr>]]\<rparr>)"
  by (simp add: remove_oc_def oc_eval)

text \<open>
  The rest of what C10 says does hold on a collection nobody listens to whose events are
  not named \<open>error\<close>: \<open>remove\<close> throws nothing, and when no argument is in the collection
  the list is unchanged and both events are emitted with an empty list.
\<close>

lemma indexOf_absent: "x \<notin> set xs \<Longrightarrow> indexOf xs x = -1"
  by (induction xs) (auto simp: Let_def)

lemma indexOf_present: "x \<in> set xs \<Longrightarrow> 0 \<le> indexOf xs x \<and> indexOf xs x < int (length xs) \<and> xs ! nat (indexOf xs x) = x"
  by (induction xs) (auto simp: Let_def nat_add_distrib)

lemma remove_changes_absent: "set args \<inter> set xs = {} \<Longrightarrow> remove_changes xs args = []"
  by (induction args) (simp_all add: indexOf_absent)

lemma remove_only_absent:
  "set args \<inter> set (items c) = {} \<Longrightarrow> listeners c = [] \<Longrightarrow>
   removing (eventMap c) \<noteq> ''error'' \<Longrightarrow> removed (eventMap c) \<noteq> ''error'' \<Longrightarrow>
     remove_oc c args =
       (None, c\<lparr>trace := trace c @ [Emit (removing (eventMap c)) [], Emit (removed (eventMap c)) []]\<rparr>)"
  by (simp add: remove_oc_def remove_changes_absent priv_remove_def array_sort_def emit_def emit_error_def)

text \<open>
  The batches the public operations build meet the conditions of C1 as amended, but for
  \<open>remove\<close> with a repeated argument.  \<open>add\<close> builds a batch of consecutive indices from the
  length on, and, when the \<open>adding\<close> emission returns, appends its arguments in order.
\<close>

lemma add_loop_append: "add_loop (es @ fs) c = add_loop fs (add_loop es c)"
  by (induction es arbitrary: c) simp_all

lemma add_loop_enumerated:
  "items (add_loop (map (\<lambda>i. \<lparr>item = f i, index = int (length (items c)) + int i\<rparr>) [0..<n]) c)
     = items c @ map f [0..<n]"
proof (induction n)
  case 0
  then show ?case by simp
next
  case (Suc n)
  let ?es = "map (\<lambda>i. \<lparr>item = f i, index = int (length (items c)) + int i\<rparr>) [0..<n]"
  have "items (do_splice (int (length (items c)) + int n) 0 [f n] (add_loop ?es c))
          = (items c @ map f [0..<n]) @ [f n]"
    using Suc.IH by (simp add: do_splice_def array_splice_def relative_start_def)
  then show ?case by (simp add: add_loop_append)
qed

lemma add_batch_sorted:
  "array_sort sortByIndex (map (\<lambda>i. \<lparr>item = f i, index = int n + int i\<rparr>) [0..<k])
     = map (\<lambda>i. \<lparr>item = f i, index = int n + int i\<rparr>) [0..<k]"
proof -
  let ?change = "map (\<lambda>i. \<lparr>item = f i, index = int n + int i\<rparr>) [0..<k]"
  have "map index ?change = map (\<lambda>i. int n + int i) [0..<k]"
    by simp
  moreover have "sorted (map (\<lambda>i. int n + int i) [0..<k])"
    by (simp add: sorted_map sorted_wrt_iff_nth_less)
  ultimately have "sorted (map index ?change)" by (simp only:)
  then show ?thesis
    by (simp add: array_sort_sortByIndex sort_key_id_if_sorted)
qed

lemma add_appends:
  assumes "emit_error (adding (eventMap c))
             (map (\<lambda>i. \<lparr>item = args ! i, index = int (length (items c)) + int i\<rparr>) [0..<length args])
             (listeners c) = None"
  shows "items (snd (add c args)) = items c @ args"
proof -
  let ?change = "map (\<lambda>i. \<lparr>item = args ! i, index = int (length (items c)) + int i\<rparr>) [0..<length args]"
  have s: "array_sort sortByIndex ?change = ?change" by (rule add_batch_sorted)
  have e: "emit_error (adding (eventMap c)) (array_sort sortByIndex ?change) (listeners c) = None"
    using assms unfolding s .
  have "items (add_loop ?change (snd (emit (adding (eventMap c)) ?change c)))
          = items c @ map ((!) args) [0..<length args]"
    using add_loop_enumerated [of "(!) args" "snd (emit (adding (eventMap c)) ?change c)" "length args"]
    by simp
  then show ?thesis
    unfolding add_def Let_def priv_add_delivered [OF e] s by (simp add: map_nth)
qed

text \<open>
  \<open>clear\<close> builds a batch of all positions, and, when the \<open>removing\<close> emission returns,
  nothing is left.
\<close>

lemma clear_empties:
  assumes "emit_error (removing (eventMap c))
             (array_sort sortByIndexReverse
                (map (\<lambda>i. \<lparr>item = items c ! i, index = int i\<rparr>) [0..<length (items c)]))
             (listeners c) = None"
  shows "items (snd (clear c)) = []"
proof -
  let ?changes = "map (\<lambda>i. \<lparr>item = items c ! i, index = int i\<rparr>) [0..<length (items c)]"
  let ?s = "array_sort sortByIndexReverse ?changes"
  let ?c1 = "snd (emit (removing (eventMap c)) ?s c)"
  have ix: "map index ?changes = map int [0..<length (items c)]" by simp
  have d: "distinct (map index ?changes)"
    unfolding ix by (simp add: distinct_map inj_on_def)
  have dec: "sorted_wrt (>) (map index ?s)" using d by (rule distinct_sorted_indices)
  have set_s: "set ?s = set ?changes" by (simp add: array_sort_sortByIndexReverse)
  have pre: "\<forall>e\<in>set ?s. 0 \<le> index e \<and> index e < int (length (items ?c1))
                     \<and> items ?c1 ! nat (index e) = item e"
    unfolding set_s by auto
  from trace_remove_loop_exact [OF dec pre]
  have "items (remove_loop ?s ?c1) = nths (items c) (- (nat ` index ` set ?changes))"
    by (simp add: set_s)
  moreover have "nths (items c) (- (nat ` index ` set ?changes)) = nths (items c) {}"
    by (rule nths_cong_below) (auto simp: image_iff)
  ultimately show ?thesis
    unfolding clear_def Let_def priv_remove_delivered [OF assms] by simp
qed


section \<open>Properties of Field\<close>

text \<open>The definitions a concrete run of a Field unfolds to.\<close>

lemmas field_eval = new_Field_def setIsInheriting_def onValueChanging_def onValueChanged_def
  onReset_def reset_def onInheritedValueChanged_def onMemberValueChanged_def
  member_onValueChanging_def member_onValueChanged_def member_value_set_def field_value_set_def
  emit_ev_def clone_def equals_def applyChangeSet_def Let_def

text \<open>
  Claim C3.  A Field created from a Member is inheriting and its value equals the
  Member's.  When the Member's value is set to \<open>v1\<close> while the Field is inheriting, the
  Field's value equals \<open>v1\<close> afterwards and the Field is still inheriting.  When the
  Field's value is set directly to a \<open>v2\<close> that differs from the Member's value, the Field
  stops inheriting.  When the Field is not inheriting, setting the Member's value does not
  change the Field's value.
\<close>

theorem field_inheritance_protocol:
  fixes m :: "'v Member" and s :: "'v FieldState"
  shows "f_isInheriting (field (new_Field m))
       \<and> equals (f_value (field (new_Field m))) (m_value m)
       \<and> (f_isInheriting (field s) \<longrightarrow>
            equals (f_value (field (member_value_set v1 s))) v1
            \<and> m_value (member (member_value_set v1 s)) = v1
            \<and> f_isInheriting (field (member_value_set v1 s)))
       \<and> (v2 \<noteq> m_value (member s) \<longrightarrow>
            \<not> f_isInheriting (field (field_value_set v2 s))
            \<and> f_value (field (field_value_set v2 s)) = v2
            \<and> member (field_value_set v2 s) = member s)
       \<and> (\<not> f_isInheriting (field s) \<longrightarrow>
            f_value (field (member_value_set v3 s)) = f_value (field s)
            \<and> \<not> f_isInheriting (field (member_value_set v3 s)))"
  by (simp add: field_eval)

text \<open>
  Claim C3, witness: a Member with value 0, its Field, then the Member set to 1, the Field
  set to 2 and the Member set to 3.  The Field ends with value 2, not inheriting.
\<close>

theorem field_inheritance_protocol_witness:
  "f_isInheriting (field (new_Field \<lparr>m_name = ''hp'', m_value = 0::nat\<rparr>))
   \<and> f_value (field (member_value_set 1 (new_Field \<lparr>m_name = ''hp'', m_value = 0::nat\<rparr>))) = 1
   \<and> f_isInheriting (field (member_value_set 1 (new_Field \<lparr>m_name = ''hp'', m_value = 0::nat\<rparr>)))
   \<and> (2::nat) \<noteq> m_value (member (member_value_set 1 (new_Field \<lparr>m_name = ''hp'', m_value = 0::nat\<rparr>)))
   \<and> \<not> f_isInheriting (field (field_value_set 2
          (member_value_set 1 (new_Field \<lparr>m_name = ''hp'', m_value = 0::nat\<rparr>))))
   \<and> f_value (field (member_value_set 3 (field_value_set 2
          (member_value_set 1 (new_Field \<lparr>m_name = ''hp'', m_value = 0::nat\<rparr>))))) = 2"
proof -
  let ?m = "\<lparr>m_name = ''hp'', m_value = 0::nat\<rparr>"
  let ?s0 = "new_Field ?m"
  let ?s1 = "member_value_set 1 ?s0"
  let ?s2 = "field_value_set 2 ?s1"
  let ?s3 = "member_value_set 3 ?s2"
  note a = field_inheritance_protocol [of ?m ?s0 1 2 3]
  note b = field_inheritance_protocol [of ?m ?s1 1 2 3]
  note c = field_inheritance_protocol [of ?m ?s2 1 2 3]
  from a have i0: "f_isInheriting (field ?s0)" by blast
  with a have s1: "equals (f_value (field ?s1)) 1" "m_value (member ?s1) = 1"
    "f_isInheriting (field ?s1)" by blast+
  from s1(2) have ne: "(2::nat) \<noteq> m_value (member ?s1)" by simp
  with b have s2: "\<not> f_isInheriting (field ?s2)" "f_value (field ?s2) = 2" by blast+
  with c have s3: "f_value (field ?s3) = f_value (field ?s2)" by blast
  from i0 s1 ne s2 s3 show ?thesis by (simp add: equals_def)
qed

text \<open>
  Claim C9.  \<open>reset()\<close> leaves the Field inheriting, emits \<open>resetStart\<close> first and
  \<open>resetEnd\<close> last, with the two events of the flag change between them when the flag
  does change, and leaves the Field's value and the Member as they were.
\<close>

theorem reset_flips_flag_only:
  fixes s :: "'v FieldState"
  shows "f_isInheriting (field (reset s))
       \<and> f_value (field (reset s)) = f_value (field s)
       \<and> member (reset s) = member s
       \<and> emitted (reset s) =
           emitted s @ [field_resetStart]
             @ (if f_isInheriting (field s) then [] else [field_inheritedChanging, field_inheritedChanged])
             @ [field_resetEnd]"
  by (simp add: field_eval)

section \<open>Properties of the Orchestrator\<close>

text \<open>The definitions a lookup in the example project unfolds to.\<close>

lemmas project_eval = example_project_def example_objects_def blank_object_def
  collection_get_def collection_of_def qualifiedName_def project_get_def parentPath_def basename_def
  eval_nat_numeral

text \<open>
  The pipeline alone: when the resolver declines the action, the operation rejects with
  \<open>RfcError\<close> for the action and the cause, whatever the fulfil callback is, and the state is
  the one handed to the pipeline with the action recorded as submitted.
\<close>

lemma settle_declined:
  "resolver a = Some cause \<Longrightarrow> reject = None \<or> reject = Some RfcError \<Longrightarrow>
     settle f (rfc_commit resolver a fulfill reject p)
       = (Rejected (RfcError a cause), p\<lparr>submitted := submitted p @ [a]\<rparr>)"
  by (auto simp: settle_def rfc_commit_def)

lemma rfc_commit_returning_declined:
  "resolver a = Some cause \<Longrightarrow>
     rfc_commit_returning resolver a fulfill None p
       = (Inl (RfcError a cause), p\<lparr>submitted := submitted p @ [a]\<rparr>)"
  by (simp add: rfc_commit_returning_def)

lemma settle_returned_declined:
  "resolver a = Some cause \<Longrightarrow>
     settle_returned (rfc_commit_returning resolver a fulfill None p)
       = (Rejected (RfcError a cause), p\<lparr>submitted := submitted p @ [a]\<rparr>)"
  by (simp add: settle_returned_def rfc_commit_returning_declined)

lemma rejected_with_submitted:
  "rejected_with p a cause (Rejected (RfcError a cause), p\<lparr>submitted := submitted p @ [a]\<rparr>)"
  by (simp add: rejected_with_def local_state_unchanged_def)

lemma rejected_with_after:
  "local_state_unchanged p p0 \<Longrightarrow> submitted p0 = submitted p \<Longrightarrow>
     rejected_with p a cause (Rejected (RfcError a cause), p0\<lparr>submitted := submitted p0 @ [a]\<rparr>)"
  by (simp add: rejected_with_def local_state_unchanged_def)

text \<open>What \<open>createMembers\<close> does before it submits leaves the local state alone.\<close>

lemma createMembers_loop_frame:
  "createMembers_loop params idx p = (created, p') \<Longrightarrow>
     objects p' = objects p \<and> registry p' = registry p \<and> p_events p' = p_events p
     \<and> submitted p' = submitted p \<and> p_root p' = p_root p"
proof (induction params arbitrary: idx p created p')
  case Nil
  then show ?case by simp
next
  case (Cons param params)
  obtain rest p3 where rest:
    "createMembers_loop params (idx + 1) (snd (new_ref (snd (generate p)))) = (rest, p3)"
    by (cases "createMembers_loop params (idx + 1) (snd (new_ref (snd (generate p))))") auto
  from Cons.prems rest have "p' = p3"
    by (simp add: Let_def split_beta generate_def new_ref_def)
  with Cons.IH [OF rest] show ?case
    by (simp add: generate_def new_ref_def)
qed

text \<open>
  Each operation, when the resolver declines the action the operation builds: what it
  returns and the state it leaves.
\<close>

lemma create_qualified_declined:
  assumes "resolver (create_action ty (allocated p) (int (length (collection_of ty (objects p parent))))) = Some cause"
    and "parent < allocated p" and "qualifiedName p parent = Some pn"
  shows "rejected_with p (create_action ty (allocated p) (int (length (collection_of ty (objects p parent)))))
           cause (create_qualified ty model resolver p parent name)"
proof -
  let ?a = "create_action ty (allocated p) (int (length (collection_of ty (objects p parent))))"
  let ?p2 = "snd (new_object ((blank_object ty (fst (generate p)) name (Some parent))\<lparr>q_model := model\<rparr>)
                   (snd (generate p)))"
  have o: "objects ?p2 parent = objects p parent"
    using assms(2) by (simp add: new_object_def generate_def)
  have r: "fst (new_object ((blank_object ty (fst (generate p)) name (Some parent))\<lparr>q_model := model\<rparr>)
                   (snd (generate p))) = allocated p"
    by (simp add: new_object_def generate_def)
  have fr: "local_state_unchanged p ?p2" "submitted ?p2 = submitted p"
    by (simp_all add: local_state_unchanged_def new_object_def generate_def)
  have "create_qualified ty model resolver p parent name
          = (Rejected (RfcError ?a cause), ?p2\<lparr>submitted := submitted ?p2 @ [?a]\<rparr>)"
    unfolding create_qualified_def assms(3) option.case Let_def split_beta r o
    by (rule settle_declined, rule assms(1), simp)
  then show ?thesis using rejected_with_after [OF fr] by simp
qed

lemma createMembers_declined:
  assumes "resolver (BatchedActions (map (\<lambda>c. MemberCreateAction model (item c) (index c))
             (fst (createMembers_loop params (int (length (q_members (objects p model)))) p)))) = Some cause"
  shows "rejected_with p (BatchedActions (map (\<lambda>c. MemberCreateAction model (item c) (index c))
             (fst (createMembers_loop params (int (length (q_members (objects p model)))) p))))
           cause (createMembers resolver p model params)"
proof -
  obtain created p1 where l:
    "createMembers_loop params (int (length (q_members (objects p model)))) p = (created, p1)"
    by (cases "createMembers_loop params (int (length (q_members (objects p model)))) p") auto
  note fr = createMembers_loop_frame [OF l]
  have sub: "submitted p1 = submitted p" using fr by simp
  have frame: "local_state_unchanged p p1"
    using fr by (simp add: local_state_unchanged_def)
  let ?a = "BatchedActions (map (\<lambda>c. MemberCreateAction model (item c) (index c)) created)"
  have d: "resolver ?a = Some cause" using assms by (simp add: l)
  have "createMembers resolver p model params
          = (Rejected (RfcError ?a cause), p1\<lparr>submitted := submitted p1 @ [?a]\<rparr>)"
    unfolding createMembers_def l Let_def prod.case
    by (rule settle_declined, rule d, simp)
  then show ?thesis using rejected_with_after [OF frame sub] by (simp add: l)
qed

lemma rename_declined:
  "resolver (RenameAction source newName) = Some cause \<Longrightarrow>
     rename resolver p source newName
       = (Rejected (RfcError (RenameAction source newName) cause),
          p\<lparr>submitted := submitted p @ [RenameAction source newName]\<rparr>)"
  unfolding rename_def Let_def by (rule settle_declined) simp_all

lemma deleteMembers_declined:
  "resolver (BatchedActions (map MemberDeleteAction
       (filter (\<lambda>m. js_in inherited (mem_name m) names) (q_members (objects p model))))) = Some cause \<Longrightarrow>
     deleteMembers inherited resolver p model names
       = (Rejected (RfcError (BatchedActions (map MemberDeleteAction
             (filter (\<lambda>m. js_in inherited (mem_name m) names) (q_members (objects p model))))) cause),
          p\<lparr>submitted := submitted p @ [BatchedActions (map MemberDeleteAction
             (filter (\<lambda>m. js_in inherited (mem_name m) names) (q_members (objects p model))))]\<rparr>)"
  unfolding deleteMembers_def Let_def by (rule settle_declined) simp_all

lemma updateMembers_declined:
  "resolver (MemberGetAction model) = Some cause \<Longrightarrow>
     updateMembers resolver reply p model
       = (Rejected (RfcError (MemberGetAction model) cause),
          p\<lparr>submitted := submitted p @ [MemberGetAction model]\<rparr>)"
  unfolding updateMembers_def by (rule settle_declined) simp_all

lemma move_declined:
  assumes "resolver (MoveAction source to) = Some cause"
    and "source \<noteq> p_root p" and "q_parent (objects p source) = Some old" and "old \<noteq> to"
    and "qualifiedName p to = Some toName" and "project_get p Namespace toName = Some found"
    and "collection_get (objects p) (collection_of (q_type (objects p source)) (objects p to))
           (q_name (objects p source)) = None"
  shows "move resolver p (Some source) to
       = (Rejected (RfcError (MoveAction source to) cause),
          p\<lparr>submitted := submitted p @ [MoveAction source to]\<rparr>)"
proof -
  have "settle (\<lambda>p1. source)
             (rfc_commit resolver (MoveAction source to)
                (\<lambda>q. (None, composer_move source to
                               (int (length (collection_of (q_type (objects p source)) (objects q to)))) q))
                None p)
        = (Rejected (RfcError (MoveAction source to) cause),
          p\<lparr>submitted := submitted p @ [MoveAction source to]\<rparr>)"
    by (rule settle_declined, rule assms(1), simp)
  then show ?thesis using assms(2-7) by (simp add: move_def Let_def)
qed

lemma reorder_declined:
  "resolver (ReorderAction source from_idx to_idx) = Some cause \<Longrightarrow>
     reorder resolver p source from_idx to_idx
       = (Rejected (RfcError (ReorderAction source from_idx to_idx) cause),
          p\<lparr>submitted := submitted p @ [ReorderAction source from_idx to_idx]\<rparr>)"
  unfolding reorder_def Let_def by (rule settle_declined) simp_all

lemma reorderMember_declined:
  assumes "resolver (MemberReorderAction m from_idx to_idx) = Some cause"
    and "collection_at (q_members (objects p model)) from_idx = Some m"
    and "0 \<le> to_idx" and "to_idx \<le> int (length (q_members (objects p model)))"
  shows "reorderMember resolver p model from_idx to_idx
       = (Rejected (RfcError (MemberReorderAction m from_idx to_idx) cause),
          p\<lparr>submitted := submitted p @ [MemberReorderAction m from_idx to_idx]\<rparr>)"
proof -
  have "settle (\<lambda>p1. m)
              (rfc_commit resolver (MemberReorderAction m from_idx to_idx)
                (\<lambda>q. let q1 = emit_all (member_events model ''moving'' ''Model.MemberMoving'') q;
                          q2 = set_members model
                                 (custom_move_commit (q_members (objects q1 model)) from_idx to_idx) q1
                      in (None, emit_all (member_events model ''moved'' ''Model.MemberMoved'') q2))
                None p)
       = (Rejected (RfcError (MemberReorderAction m from_idx to_idx) cause),
          p\<lparr>submitted := submitted p @ [MemberReorderAction m from_idx to_idx]\<rparr>)"
    by (rule settle_declined, rule assms(1), simp)
  then show ?thesis using assms(2-4) by (simp add: reorderMember_def)
qed

lemma updateMemberValue_declined:
  "resolver (MemberValueChangeAction m oldValue newValue) = Some cause \<Longrightarrow>
     updateMemberValue resolver p m oldValue newValue changeValue
       = (Rejected (RfcError (MemberValueChangeAction m oldValue newValue) cause),
          p\<lparr>submitted := submitted p @ [MemberValueChangeAction m oldValue newValue]\<rparr>)"
  unfolding updateMemberValue_def by (rule settle_returned_declined)

lemma updateFieldValue_declined:
  "resolver (FieldValueChangeAction f oldValue newValue) = Some cause \<Longrightarrow>
     updateFieldValue resolver p f oldValue newValue changeValue
       = (Rejected (RfcError (FieldValueChangeAction f oldValue newValue) cause),
          p\<lparr>submitted := submitted p @ [FieldValueChangeAction f oldValue newValue]\<rparr>)"
  unfolding updateFieldValue_def by (rule settle_returned_declined)

lemma updateQualifiedObjects_declined:
  "resolver (children_action ty parent) = Some cause \<Longrightarrow>
     updateQualifiedObjects restore_collection resolver reply p ty parent
       = (Rejected (RfcError (children_action ty parent) cause),
          p\<lparr>submitted := submitted p @ [children_action ty parent]\<rparr>)"
  unfolding updateQualifiedObjects_def by (rule settle_declined) simp_all

lemma updateQualifiedObject_declined:
  "resolver (update_action (q_type (objects p obj)) obj) = Some cause \<Longrightarrow>
     updateQualifiedObject orphan restore_namespace resolver reply p obj
       = (Rejected (RfcError (update_action (q_type (objects p obj)) obj) cause),
          p\<lparr>submitted := submitted p @ [update_action (q_type (objects p obj)) obj]\<rparr>)"
  unfolding updateQualifiedObject_def by (rule settle_declined) simp_all

lemma getById_declined:
  "resolver (getById_action ty i) = Some cause \<Longrightarrow> warden_get p i = None \<Longrightarrow>
     getById resolver restore p ty i
       = (Rejected (RfcError (getById_action ty i) cause),
          p\<lparr>submitted := submitted p @ [getById_action ty i]\<rparr>)"
  by (simp add: getById_def Let_def rfc_commit_returning_declined)

lemma updateFields_declined_first:
  "resolver (MemberGetAction model) = Some cause \<Longrightarrow> q_model (objects p inst) = Some model \<Longrightarrow>
     updateFields orphan restore_namespace resolver member_reply update_reply field_reply p inst
       = (Rejected (RfcError (MemberGetAction model) cause),
          p\<lparr>submitted := submitted p @ [MemberGetAction model]\<rparr>)"
  by (simp add: updateFields_def updateMembers_declined)

lemma updateFields_declined_second:
  "resolver (update_action (q_type (objects p1 inst)) inst) = Some cause \<Longrightarrow>
   q_model (objects p inst) = Some model \<Longrightarrow>
   updateMembers resolver member_reply p model = (Resolved ms, p1) \<Longrightarrow>
     updateFields orphan restore_namespace resolver member_reply update_reply field_reply p inst
       = (Rejected (RfcError (update_action (q_type (objects p1 inst)) inst) cause),
          p1\<lparr>submitted := submitted p1 @ [update_action (q_type (objects p1 inst)) inst]\<rparr>)"
  by (simp add: updateFields_def updateQualifiedObject_declined)

lemma updateFields_declined_third:
  "resolver (FieldGetAction inst) = Some cause \<Longrightarrow>
   q_model (objects p inst) = Some model \<Longrightarrow>
   updateMembers resolver member_reply p model = (Resolved ms, p1) \<Longrightarrow>
   updateQualifiedObject orphan restore_namespace resolver update_reply p1 inst = (Resolved u, p2) \<Longrightarrow>
     updateFields orphan restore_namespace resolver member_reply update_reply field_reply p inst
       = (Rejected (RfcError (FieldGetAction inst) cause),
          p2\<lparr>submitted := submitted p2 @ [FieldGetAction inst]\<rparr>)"
  by (simp add: updateFields_def settle_returned_declined)

text \<open>
  Claim C2, as amended.  Let the resolver decline the action \<open>a\<close>.  Each operation of the
  Orchestrator that submits an action (\<open>createNamespace\<close>, \<open>createModel\<close>,
  \<open>createInstance\<close>, \<open>createMembers\<close>, \<open>updateMembers\<close>, \<open>deleteMembers\<close>, \<open>rename\<close>, \<open>move\<close>,
  \<open>reorder\<close>, \<open>reorderMember\<close>, \<open>updateMemberValue\<close>, \<open>updateFieldValue\<close>,
  \<open>updateQualifiedObjects\<close>, \<open>updateQualifiedObject\<close>, \<open>getById\<close>, \<open>updateFields\<close>), called with
  arguments for which \<open>a\<close> is the action it builds and which pass the checks that come
  before the submission, submits \<open>a\<close> and nothing else, rejects with \<open>RfcError\<close> carrying
  \<open>a\<close> and the cause, and leaves the local state as it was when \<open>a\<close> was submitted: every
  object that existed, with its collections, the registry and the events emitted.  For every
  operation but \<open>updateFields\<close> that is the state before the call.  \<open>updateFields\<close> submits
  three actions in turn, the one of \<open>updateMembers\<close>, the one of \<open>updateQualifiedObject\<close> and
  its own; when the first is declined the state is the one before the call, when the second
  is declined it is the one \<open>updateMembers\<close> has left, and when the third is declined the one
  \<open>updateQualifiedObject\<close> has left.
\<close>

theorem rejected_action_leaves_local_state:
  fixes p :: "'v Project"
  assumes "resolver a = Some cause"
  shows "(a = NamespaceCreateAction (allocated p) (int (length (q_children (objects p parent))))
            \<and> parent < allocated p \<and> qualifiedName p parent = Some pn \<longrightarrow>
          rejected_with p a cause (createNamespace resolver p parent name))
       \<and> (a = ModelCreateAction (allocated p) (int (length (q_models (objects p parent))))
            \<and> parent < allocated p \<and> qualifiedName p parent = Some pn \<longrightarrow>
          rejected_with p a cause (createModel resolver p parent name))
       \<and> (a = InstanceCreateAction (allocated p) (int (length (q_instances (objects p parent))))
            \<and> parent < allocated p \<and> qualifiedName p parent = Some pn \<longrightarrow>
          rejected_with p a cause (createInstance resolver p parent model name))
       \<and> (a = BatchedActions (map (\<lambda>c. MemberCreateAction model (item c) (index c))
                  (fst (createMembers_loop params (int (length (q_members (objects p model)))) p))) \<longrightarrow>
          rejected_with p a cause (createMembers resolver p model params))
       \<and> (a = MemberGetAction model \<longrightarrow>
          rejected_with p a cause (updateMembers resolver member_reply p model))
       \<and> (a = BatchedActions (map MemberDeleteAction
                  (filter (\<lambda>m. js_in inherited (mem_name m) names) (q_members (objects p model)))) \<longrightarrow>
          rejected_with p a cause (deleteMembers inherited resolver p model names))
       \<and> (a = RenameAction source newName \<longrightarrow>
          rejected_with p a cause (rename resolver p source newName))
       \<and> (a = MoveAction source to \<and> source \<noteq> p_root p \<and> q_parent (objects p source) = Some old
            \<and> old \<noteq> to \<and> qualifiedName p to = Some toName
            \<and> project_get p Namespace toName = Some found
            \<and> collection_get (objects p) (collection_of (q_type (objects p source)) (objects p to))
                 (q_name (objects p source)) = None \<longrightarrow>
          rejected_with p a cause (move resolver p (Some source) to))
       \<and> (a = ReorderAction source from_idx to_idx \<longrightarrow>
          rejected_with p a cause (reorder resolver p source from_idx to_idx))
       \<and> (a = MemberReorderAction m from_idx to_idx
            \<and> collection_at (q_members (objects p model)) from_idx = Some m
            \<and> 0 \<le> to_idx \<and> to_idx \<le> int (length (q_members (objects p model))) \<longrightarrow>
          rejected_with p a cause (reorderMember resolver p model from_idx to_idx))
       \<and> (a = MemberValueChangeAction m oldValue newValue \<longrightarrow>
          rejected_with p a cause (updateMemberValue resolver p m oldValue newValue changeValue))
       \<and> (a = FieldValueChangeAction fld oldValue newValue \<longrightarrow>
          rejected_with p a cause (updateFieldValue resolver p fld oldValue newValue changeValue))
       \<and> (a = children_action ty parent \<longrightarrow>
          rejected_with p a cause
            (updateQualifiedObjects restore_collection resolver children_reply p ty parent))
       \<and> (a = update_action (q_type (objects p obj)) obj \<longrightarrow>
          rejected_with p a cause
            (updateQualifiedObject orphan restore_namespace resolver update_reply p obj))
       \<and> (a = getById_action ty i \<and> warden_get p i = None \<longrightarrow>
          rejected_with p a cause (getById resolver restore p ty i))
       \<and> (a = MemberGetAction model \<and> q_model (objects p inst) = Some model \<longrightarrow>
          rejected_with p a cause
            (updateFields orphan restore_namespace resolver member_reply update_reply field_reply p inst))
       \<and> (a = update_action (q_type (objects pm inst)) inst \<and> q_model (objects p inst) = Some model
            \<and> updateMembers resolver member_reply p model = (Resolved ms, pm) \<longrightarrow>
          rejected_with pm a cause
            (updateFields orphan restore_namespace resolver member_reply update_reply field_reply p inst))
       \<and> (a = FieldGetAction inst \<and> q_model (objects p inst) = Some model
            \<and> updateMembers resolver member_reply p model = (Resolved ms, pm)
            \<and> updateQualifiedObject orphan restore_namespace resolver update_reply pm inst
                = (Resolved u, po) \<longrightarrow>
          rejected_with po a cause
            (updateFields orphan restore_namespace resolver member_reply update_reply field_reply p inst))"
proof -
  have c1: "a = NamespaceCreateAction (allocated p) (int (length (q_children (objects p parent))))
            \<and> parent < allocated p \<and> qualifiedName p parent = Some pn \<longrightarrow>
          rejected_with p a cause (createNamespace resolver p parent name)"
    using assms create_qualified_declined [of resolver Namespace p parent cause pn None name]
    by (auto simp: createNamespace_def create_action_def collection_of_def)
  have c2: "a = ModelCreateAction (allocated p) (int (length (q_models (objects p parent))))
            \<and> parent < allocated p \<and> qualifiedName p parent = Some pn \<longrightarrow>
          rejected_with p a cause (createModel resolver p parent name)"
    using assms create_qualified_declined [of resolver Model p parent cause pn None name]
    by (auto simp: createModel_def create_action_def collection_of_def)
  have c3: "a = InstanceCreateAction (allocated p) (int (length (q_instances (objects p parent))))
            \<and> parent < allocated p \<and> qualifiedName p parent = Some pn \<longrightarrow>
          rejected_with p a cause (createInstance resolver p parent model name)"
    using assms create_qualified_declined [of resolver Instance p parent cause pn "Some model" name]
    by (auto simp: createInstance_def create_action_def collection_of_def)
  have c4: "a = BatchedActions (map (\<lambda>c. MemberCreateAction model (item c) (index c))
                  (fst (createMembers_loop params (int (length (q_members (objects p model)))) p))) \<longrightarrow>
          rejected_with p a cause (createMembers resolver p model params)"
    using assms createMembers_declined [of resolver model params p cause] by auto
  have c5: "a = MemberGetAction model \<longrightarrow>
          rejected_with p a cause (updateMembers resolver member_reply p model)"
    using assms by (clarsimp simp: updateMembers_declined rejected_with_submitted)
  have c6: "a = BatchedActions (map MemberDeleteAction
                  (filter (\<lambda>m. js_in inherited (mem_name m) names) (q_members (objects p model)))) \<longrightarrow>
          rejected_with p a cause (deleteMembers inherited resolver p model names)"
    using assms by (clarsimp simp: deleteMembers_declined rejected_with_submitted)
  have c7: "a = RenameAction source newName \<longrightarrow>
          rejected_with p a cause (rename resolver p source newName)"
    using assms by (clarsimp simp: rename_declined rejected_with_submitted)
  have c8: "a = MoveAction source to \<and> source \<noteq> p_root p \<and> q_parent (objects p source) = Some old
            \<and> old \<noteq> to \<and> qualifiedName p to = Some toName
            \<and> project_get p Namespace toName = Some found
            \<and> collection_get (objects p) (collection_of (q_type (objects p source)) (objects p to))
                 (q_name (objects p source)) = None \<longrightarrow>
          rejected_with p a cause (move resolver p (Some source) to)"
    using assms move_declined [of resolver source to cause p old toName found]
    by (clarsimp simp: rejected_with_submitted)
  have c9: "a = ReorderAction source from_idx to_idx \<longrightarrow>
          rejected_with p a cause (reorder resolver p source from_idx to_idx)"
    using assms by (clarsimp simp: reorder_declined rejected_with_submitted)
  have c10: "a = MemberReorderAction m from_idx to_idx
            \<and> collection_at (q_members (objects p model)) from_idx = Some m
            \<and> 0 \<le> to_idx \<and> to_idx \<le> int (length (q_members (objects p model))) \<longrightarrow>
          rejected_with p a cause (reorderMember resolver p model from_idx to_idx)"
    using assms reorderMember_declined [of resolver m from_idx to_idx cause p model]
    by (clarsimp simp: rejected_with_submitted)
  have c11: "a = MemberValueChangeAction m oldValue newValue \<longrightarrow>
          rejected_with p a cause (updateMemberValue resolver p m oldValue newValue changeValue)"
    using assms by (clarsimp simp: updateMemberValue_declined rejected_with_submitted)
  have c12: "a = FieldValueChangeAction fld oldValue newValue \<longrightarrow>
          rejected_with p a cause (updateFieldValue resolver p fld oldValue newValue changeValue)"
    using assms by (clarsimp simp: updateFieldValue_declined rejected_with_submitted)
  have c13: "a = children_action ty parent \<longrightarrow>
          rejected_with p a cause
            (updateQualifiedObjects restore_collection resolver children_reply p ty parent)"
    using assms by (clarsimp simp: updateQualifiedObjects_declined rejected_with_submitted)
  have c14: "a = update_action (q_type (objects p obj)) obj \<longrightarrow>
          rejected_with p a cause
            (updateQualifiedObject orphan restore_namespace resolver update_reply p obj)"
    using assms by (clarsimp simp: updateQualifiedObject_declined rejected_with_submitted)
  have c15: "a = getById_action ty i \<and> warden_get p i = None \<longrightarrow>
          rejected_with p a cause (getById resolver restore p ty i)"
    using assms by (clarsimp simp: getById_declined rejected_with_submitted)
  have c16: "a = MemberGetAction model \<and> q_model (objects p inst) = Some model \<longrightarrow>
          rejected_with p a cause
            (updateFields orphan restore_namespace resolver member_reply update_reply field_reply p inst)"
    using assms by (clarsimp simp: updateFields_declined_first rejected_with_submitted)
  have c17: "a = update_action (q_type (objects pm inst)) inst \<and> q_model (objects p inst) = Some model
            \<and> updateMembers resolver member_reply p model = (Resolved ms, pm) \<longrightarrow>
          rejected_with pm a cause
            (updateFields orphan restore_namespace resolver member_reply update_reply field_reply p inst)"
    using assms
      updateFields_declined_second [of resolver pm inst cause p model member_reply ms orphan
        restore_namespace update_reply field_reply]
    by (clarsimp simp: rejected_with_submitted)
  have c18: "a = FieldGetAction inst \<and> q_model (objects p inst) = Some model
            \<and> updateMembers resolver member_reply p model = (Resolved ms, pm)
            \<and> updateQualifiedObject orphan restore_namespace resolver update_reply pm inst
                = (Resolved u, po) \<longrightarrow>
          rejected_with po a cause
            (updateFields orphan restore_namespace resolver member_reply update_reply field_reply p inst)"
    using assms
      updateFields_declined_third [of resolver inst cause p model member_reply ms pm orphan
        restore_namespace update_reply u po field_reply]
    by (clarsimp simp: rejected_with_submitted)
  show ?thesis
    by (intro conjI) (fact c1 c2 c3 c4 c5 c6 c7 c8 c9 c10 c11 c12 c13 c14 c15 c16 c17 c18)+
qed

text \<open>
  Claim C2, witness: every operation with a resolver that declines, in the example project
  and, for the Fields, in the project of the Members A, B, C with its Instance; the second
  and third stage of \<open>updateFields\<close> with a resolver that declines only the update of the
  Instance, respectively only the \<open>FieldGetAction\<close>.  Every call rejects with \<open>RfcError\<close> for
  its action, and the collections are as they were.
\<close>

theorem rejected_action_leaves_local_state_witness:
  "fst (createNamespace declines_all example_project 2 ''X'')
      = Rejected (RfcError (NamespaceCreateAction 9 1) ''declined'')
   \<and> q_children (objects (snd (createNamespace declines_all example_project 2 ''X'')) 2) = [3]
   \<and> fst (createModel declines_all example_project 0 ''M'')
      = Rejected (RfcError (ModelCreateAction 9 1) ''declined'')
   \<and> q_models (objects (snd (createModel declines_all example_project 0 ''M'')) 0) = [4]
   \<and> fst (createInstance declines_all example_project 0 4 ''I'')
      = Rejected (RfcError (InstanceCreateAction 9 0) ''declined'')
   \<and> q_instances (objects (snd (createInstance declines_all example_project 0 4 ''I'')) 0) = []
   \<and> fst (createMembers declines_all example_project 4 [\<lparr>ci_name = ''mp'', ci_value = 5, ci_index = None\<rparr>])
      = Rejected (RfcError (BatchedActions [MemberCreateAction 4 \<lparr>mem_ref = 9, mem_id = 109, mem_name = ''mp'', mem_value = 5\<rparr> 2]) ''declined'')
   \<and> q_members (objects (snd (createMembers declines_all example_project 4 [\<lparr>ci_name = ''mp'', ci_value = 5, ci_index = None\<rparr>])) 4) = [member_hp, member_0]
   \<and> fst (updateMembers declines_all cad_reply example_project 4)
      = Rejected (RfcError (MemberGetAction 4) ''declined'')
   \<and> q_members (objects (snd (updateMembers declines_all cad_reply example_project 4)) 4) = [member_hp, member_0]
   \<and> fst (deleteMembers es2019_array_inherited declines_all example_project 4 [''hp''])
      = Rejected (RfcError (BatchedActions [MemberDeleteAction member_0]) ''declined'')
   \<and> q_members (objects (snd (deleteMembers es2019_array_inherited declines_all example_project 4 [''hp''])) 4) = [member_hp, member_0]
   \<and> fst (rename declines_all example_project 1 ''Z'')
      = Rejected (RfcError (RenameAction 1 ''Z'') ''declined'')
   \<and> q_name (objects (snd (rename declines_all example_project 1 ''Z'')) 1) = ''A''
   \<and> fst (move declines_all example_project (Some 6) 1)
      = Rejected (RfcError (MoveAction 6 1) ''declined'')
   \<and> q_children (objects (snd (move declines_all example_project (Some 6) 1)) 1) = []
   \<and> q_children (objects (snd (move declines_all example_project (Some 6) 1)) 5) = [6]
   \<and> fst (reorder declines_all example_project 1 0 1)
      = Rejected (RfcError (ReorderAction 1 0 1) ''declined'')
   \<and> q_children (objects (snd (reorder declines_all example_project 1 0 1)) 0) = [1, 2]
   \<and> fst (reorderMember declines_all example_project 4 0 1)
      = Rejected (RfcError (MemberReorderAction member_hp 0 1) ''declined'')
   \<and> q_members (objects (snd (reorderMember declines_all example_project 4 0 1)) 4) = [member_hp, member_0]
   \<and> fst (updateMemberValue declines_all example_project member_hp 10 11 (\<lambda>q. (Inr 11, q)))
      = Rejected (RfcError (MemberValueChangeAction member_hp 10 11) ''declined'')
   \<and> q_members (objects (snd (updateMemberValue declines_all example_project member_hp 10 11 (\<lambda>q. (Inr 11, q)))) 4) = [member_hp, member_0]
   \<and> fst (updateFieldValue declines_all abc_instance_project field_A 0 1 (\<lambda>q. (Inr 1, q)))
      = Rejected (RfcError (FieldValueChangeAction field_A 0 1) ''declined'')
   \<and> fst (updateQualifiedObjects (\<lambda>ty r (xs::nat list) q. (None, q)) declines_all \<lparr>gc_contentsUpdated = True, gc_restore = Some [0::nat]\<rparr> example_project Namespace 0)
      = Rejected (RfcError (NamespaceGetChildrenAction 0) ''declined'')
   \<and> q_children (objects (snd (updateQualifiedObjects (\<lambda>ty r (xs::nat list) q. (None, q)) declines_all \<lparr>gc_contentsUpdated = True, gc_restore = Some [0::nat]\<rparr> example_project Namespace 0)) 0) = [1, 2]
   \<and> fst (updateQualifiedObject (\<lambda>r q. (None, q)) (\<lambda>r (x::nat) q. (None, q)) declines_all (\<lparr>up_contentsUpdated = False, up_restore = None, up_exists = True\<rparr> :: nat UpdateReply) example_project 1)
      = Rejected (RfcError (NamespaceUpdateAction 1) ''declined'')
   \<and> fst (getById declines_all (Some ''A'') example_project Namespace 101)
      = Rejected (RfcError (NamespaceGetByIdAction 101) ''declined'')
   \<and> fst (updateFields (\<lambda>r q. (None, q)) (\<lambda>r (x::nat) q. (None, q)) declines_all cad_reply (\<lparr>up_contentsUpdated = False, up_restore = None, up_exists = True\<rparr> :: nat UpdateReply) \<lparr>fg_contentsUpdated = False, fg_results = []\<rparr> abc_instance_project 5)
      = Rejected (RfcError (MemberGetAction 1) ''declined'')
   \<and> q_members (objects (snd (updateFields (\<lambda>r q. (None, q)) (\<lambda>r (x::nat) q. (None, q)) declines_all cad_reply (\<lparr>up_contentsUpdated = False, up_restore = None, up_exists = True\<rparr> :: nat UpdateReply) \<lparr>fg_contentsUpdated = False, fg_results = []\<rparr> abc_instance_project 5)) 1) = [member_A, member_B, member_C]
   \<and> fst (updateFields (\<lambda>r q. (None, q)) (\<lambda>r (x::nat) q. (None, q)) declines_InstanceUpdate cad_reply (\<lparr>up_contentsUpdated = False, up_restore = None, up_exists = True\<rparr> :: nat UpdateReply) \<lparr>fg_contentsUpdated = False, fg_results = []\<rparr> abc_instance_project 5)
      = Rejected (RfcError (InstanceUpdateAction 5) ''declined'')
   \<and> fst (updateFields (\<lambda>r q. (None, q)) (\<lambda>r (x::nat) q. (None, q)) declines_FieldGet cad_reply (\<lparr>up_contentsUpdated = False, up_restore = None, up_exists = True\<rparr> :: nat UpdateReply) \<lparr>fg_contentsUpdated = False, fg_results = []\<rparr> abc_instance_project 5)
      = Rejected (RfcError (FieldGetAction 5) ''declined'')"
proof -
  have h1: "declines_all (NamespaceCreateAction 9 1) = Some ''declined''"
    by (simp add: declines_all_def)
  have g1_0: "NamespaceCreateAction 9 1 = NamespaceCreateAction (allocated example_project) (int (length (q_children (objects example_project 2))))"
    by (simp add: project_eval)
  have g1_1: "2 < allocated example_project"
    by (simp add: project_eval)
  have g1_2: "qualifiedName example_project 2 = Some ''B''"
    by (simp add: project_eval)
  have r1: "rejected_with example_project (NamespaceCreateAction 9 1) ''declined''
      (createNamespace declines_all example_project 2 ''X'')"
    using rejected_action_leaves_local_state [where resolver = declines_all and a = "NamespaceCreateAction 9 1" and cause = "''declined''" and p = "example_project" and parent = "2" and name = "''X''" and pn = "''B''",
        OF h1, THEN conjunct1]
      g1_0 g1_1 g1_2
    by blast
  have f1: "fst (createNamespace declines_all example_project 2 ''X'')
      = Rejected (RfcError (NamespaceCreateAction 9 1) ''declined'')"
    using r1 by (simp add: rejected_with_def)
  have e1_0a: "objects (snd (createNamespace declines_all example_project 2 ''X'')) 2 = objects example_project 2"
    using r1 by (simp add: rejected_with_def local_state_unchanged_def example_project_def)
  have e1_0: "q_children (objects (snd (createNamespace declines_all example_project 2 ''X'')) 2) = [3]"
    unfolding e1_0a by (simp add: project_eval)
  have h2: "declines_all (ModelCreateAction 9 1) = Some ''declined''"
    by (simp add: declines_all_def)
  have g2_0: "ModelCreateAction 9 1 = ModelCreateAction (allocated example_project) (int (length (q_models (objects example_project 0))))"
    by (simp add: project_eval)
  have g2_1: "0 < allocated example_project"
    by (simp add: project_eval)
  have g2_2: "qualifiedName example_project 0 = Some ''''"
    by (simp add: project_eval)
  have r2: "rejected_with example_project (ModelCreateAction 9 1) ''declined''
      (createModel declines_all example_project 0 ''M'')"
    using rejected_action_leaves_local_state [where resolver = declines_all and a = "ModelCreateAction 9 1" and cause = "''declined''" and p = "example_project" and parent = "0" and name = "''M''" and pn = "''''",
        OF h2, THEN conjunct2, THEN conjunct1]
      g2_0 g2_1 g2_2
    by blast
  have f2: "fst (createModel declines_all example_project 0 ''M'')
      = Rejected (RfcError (ModelCreateAction 9 1) ''declined'')"
    using r2 by (simp add: rejected_with_def)
  have e2_0a: "objects (snd (createModel declines_all example_project 0 ''M'')) 0 = objects example_project 0"
    using r2 by (simp add: rejected_with_def local_state_unchanged_def example_project_def)
  have e2_0: "q_models (objects (snd (createModel declines_all example_project 0 ''M'')) 0) = [4]"
    unfolding e2_0a by (simp add: project_eval)
  have h3: "declines_all (InstanceCreateAction 9 0) = Some ''declined''"
    by (simp add: declines_all_def)
  have g3_0: "InstanceCreateAction 9 0 = InstanceCreateAction (allocated example_project) (int (length (q_instances (objects example_project 0))))"
    by (simp add: project_eval)
  have g3_1: "0 < allocated example_project"
    by (simp add: project_eval)
  have g3_2: "qualifiedName example_project 0 = Some ''''"
    by (simp add: project_eval)
  have r3: "rejected_with example_project (InstanceCreateAction 9 0) ''declined''
      (createInstance declines_all example_project 0 4 ''I'')"
    using rejected_action_leaves_local_state [where resolver = declines_all and a = "InstanceCreateAction 9 0" and cause = "''declined''" and p = "example_project" and parent = "0" and name = "''I''" and pn = "''''" and model = "4",
        OF h3, THEN conjunct2, THEN conjunct2, THEN conjunct1]
      g3_0 g3_1 g3_2
    by blast
  have f3: "fst (createInstance declines_all example_project 0 4 ''I'')
      = Rejected (RfcError (InstanceCreateAction 9 0) ''declined'')"
    using r3 by (simp add: rejected_with_def)
  have e3_0a: "objects (snd (createInstance declines_all example_project 0 4 ''I'')) 0 = objects example_project 0"
    using r3 by (simp add: rejected_with_def local_state_unchanged_def example_project_def)
  have e3_0: "q_instances (objects (snd (createInstance declines_all example_project 0 4 ''I'')) 0) = []"
    unfolding e3_0a by (simp add: project_eval)
  have h4: "declines_all (BatchedActions [MemberCreateAction 4 \<lparr>mem_ref = 9, mem_id = 109, mem_name = ''mp'', mem_value = 5\<rparr> 2]) = Some ''declined''"
    by (simp add: declines_all_def)
  have g4_0: "BatchedActions [MemberCreateAction 4 \<lparr>mem_ref = 9, mem_id = 109, mem_name = ''mp'', mem_value = 5\<rparr> 2] = BatchedActions (map (\<lambda>c. MemberCreateAction 4 (item c) (index c)) (fst (createMembers_loop [\<lparr>ci_name = ''mp'', ci_value = 5, ci_index = None\<rparr>] (int (length (q_members (objects example_project 4)))) example_project)))"
    by code_simp
  have r4: "rejected_with example_project (BatchedActions [MemberCreateAction 4 \<lparr>mem_ref = 9, mem_id = 109, mem_name = ''mp'', mem_value = 5\<rparr> 2]) ''declined''
      (createMembers declines_all example_project 4 [\<lparr>ci_name = ''mp'', ci_value = 5, ci_index = None\<rparr>])"
    using rejected_action_leaves_local_state [where resolver = declines_all and a = "BatchedActions [MemberCreateAction 4 \<lparr>mem_ref = 9, mem_id = 109, mem_name = ''mp'', mem_value = 5\<rparr> 2]" and cause = "''declined''" and p = "example_project" and model = "4" and params = "[\<lparr>ci_name = ''mp'', ci_value = 5, ci_index = None\<rparr>]",
        OF h4, THEN conjunct2, THEN conjunct2, THEN conjunct2, THEN conjunct1]
      g4_0
    by blast
  have f4: "fst (createMembers declines_all example_project 4 [\<lparr>ci_name = ''mp'', ci_value = 5, ci_index = None\<rparr>])
      = Rejected (RfcError (BatchedActions [MemberCreateAction 4 \<lparr>mem_ref = 9, mem_id = 109, mem_name = ''mp'', mem_value = 5\<rparr> 2]) ''declined'')"
    using r4 by (simp add: rejected_with_def)
  have e4_0a: "objects (snd (createMembers declines_all example_project 4 [\<lparr>ci_name = ''mp'', ci_value = 5, ci_index = None\<rparr>])) 4 = objects example_project 4"
    using r4 by (simp add: rejected_with_def local_state_unchanged_def example_project_def)
  have e4_0: "q_members (objects (snd (createMembers declines_all example_project 4 [\<lparr>ci_name = ''mp'', ci_value = 5, ci_index = None\<rparr>])) 4) = [member_hp, member_0]"
    unfolding e4_0a by (simp add: project_eval)
  have h5: "declines_all (MemberGetAction 4) = Some ''declined''"
    by (simp add: declines_all_def)
  have g5_0: "MemberGetAction 4 = (MemberGetAction 4 :: nat RfcAction)"
    by simp
  have r5: "rejected_with example_project (MemberGetAction 4) ''declined''
      (updateMembers declines_all cad_reply example_project 4)"
    using rejected_action_leaves_local_state [where resolver = declines_all and a = "MemberGetAction 4" and cause = "''declined''" and p = "example_project" and model = "4" and member_reply = "cad_reply",
        OF h5, THEN conjunct2, THEN conjunct2, THEN conjunct2, THEN conjunct2, THEN conjunct1]
      g5_0
    by blast
  have f5: "fst (updateMembers declines_all cad_reply example_project 4)
      = Rejected (RfcError (MemberGetAction 4) ''declined'')"
    using r5 by (simp add: rejected_with_def)
  have e5_0a: "objects (snd (updateMembers declines_all cad_reply example_project 4)) 4 = objects example_project 4"
    using r5 by (simp add: rejected_with_def local_state_unchanged_def example_project_def)
  have e5_0: "q_members (objects (snd (updateMembers declines_all cad_reply example_project 4)) 4) = [member_hp, member_0]"
    unfolding e5_0a by (simp add: project_eval)
  have h6: "declines_all (BatchedActions [MemberDeleteAction member_0]) = Some ''declined''"
    by (simp add: declines_all_def)
  have g6_0: "BatchedActions [MemberDeleteAction member_0] = BatchedActions (map MemberDeleteAction (filter (\<lambda>m. js_in es2019_array_inherited (mem_name m) [''hp'']) (q_members (objects example_project 4))))"
    by code_simp
  have r6: "rejected_with example_project (BatchedActions [MemberDeleteAction member_0]) ''declined''
      (deleteMembers es2019_array_inherited declines_all example_project 4 [''hp''])"
    using rejected_action_leaves_local_state [where resolver = declines_all and a = "BatchedActions [MemberDeleteAction member_0]" and cause = "''declined''" and p = "example_project" and model = "4" and inherited = "es2019_array_inherited" and names = "[''hp'']",
        OF h6, THEN conjunct2, THEN conjunct2, THEN conjunct2, THEN conjunct2, THEN conjunct2, THEN conjunct1]
      g6_0
    by blast
  have f6: "fst (deleteMembers es2019_array_inherited declines_all example_project 4 [''hp''])
      = Rejected (RfcError (BatchedActions [MemberDeleteAction member_0]) ''declined'')"
    using r6 by (simp add: rejected_with_def)
  have e6_0a: "objects (snd (deleteMembers es2019_array_inherited declines_all example_project 4 [''hp''])) 4 = objects example_project 4"
    using r6 by (simp add: rejected_with_def local_state_unchanged_def example_project_def)
  have e6_0: "q_members (objects (snd (deleteMembers es2019_array_inherited declines_all example_project 4 [''hp''])) 4) = [member_hp, member_0]"
    unfolding e6_0a by (simp add: project_eval)
  have h7: "declines_all (RenameAction 1 ''Z'') = Some ''declined''"
    by (simp add: declines_all_def)
  have g7_0: "RenameAction 1 ''Z'' = (RenameAction 1 ''Z'' :: nat RfcAction)"
    by simp
  have r7: "rejected_with example_project (RenameAction 1 ''Z'') ''declined''
      (rename declines_all example_project 1 ''Z'')"
    using rejected_action_leaves_local_state [where resolver = declines_all and a = "RenameAction 1 ''Z''" and cause = "''declined''" and p = "example_project" and source = "1" and newName = "''Z''",
        OF h7, THEN conjunct2, THEN conjunct2, THEN conjunct2, THEN conjunct2, THEN conjunct2, THEN conjunct2, THEN conjunct1]
      g7_0
    by blast
  have f7: "fst (rename declines_all example_project 1 ''Z'')
      = Rejected (RfcError (RenameAction 1 ''Z'') ''declined'')"
    using r7 by (simp add: rejected_with_def)
  have e7_0a: "objects (snd (rename declines_all example_project 1 ''Z'')) 1 = objects example_project 1"
    using r7 by (simp add: rejected_with_def local_state_unchanged_def example_project_def)
  have e7_0: "q_name (objects (snd (rename declines_all example_project 1 ''Z'')) 1) = ''A''"
    unfolding e7_0a by (simp add: project_eval)
  have h8: "declines_all (MoveAction 6 1) = Some ''declined''"
    by (simp add: declines_all_def)
  have g8_0: "MoveAction 6 1 = (MoveAction 6 1 :: nat RfcAction)"
    by simp
  have g8_1: "6 \<noteq> p_root example_project"
    by (simp add: project_eval)
  have g8_2: "q_parent (objects example_project 6) = Some 5"
    by (simp add: project_eval)
  have g8_3: "(5::nat) \<noteq> 1"
    by simp
  have g8_4: "qualifiedName example_project 1 = Some ''A''"
    by (simp add: project_eval)
  have g8_5: "project_get example_project Namespace ''A'' = Some 1"
    by (simp add: project_eval)
  have g8_6: "collection_get (objects example_project) (collection_of (q_type (objects example_project 6)) (objects example_project 1)) (q_name (objects example_project 6)) = None"
    by (simp add: project_eval)
  have r8: "rejected_with example_project (MoveAction 6 1) ''declined''
      (move declines_all example_project (Some 6) 1)"
    using rejected_action_leaves_local_state [where resolver = declines_all and a = "MoveAction 6 1" and cause = "''declined''" and p = "example_project" and source = "6" and to = "1" and old = "5" and toName = "''A''" and found = "1",
        OF h8, THEN conjunct2, THEN conjunct2, THEN conjunct2, THEN conjunct2, THEN conjunct2, THEN conjunct2, THEN conjunct2, THEN conjunct1]
      g8_0 g8_1 g8_2 g8_3 g8_4 g8_5 g8_6
    by blast
  have f8: "fst (move declines_all example_project (Some 6) 1)
      = Rejected (RfcError (MoveAction 6 1) ''declined'')"
    using r8 by (simp add: rejected_with_def)
  have e8_0a: "objects (snd (move declines_all example_project (Some 6) 1)) 1 = objects example_project 1"
    using r8 by (simp add: rejected_with_def local_state_unchanged_def example_project_def)
  have e8_0: "q_children (objects (snd (move declines_all example_project (Some 6) 1)) 1) = []"
    unfolding e8_0a by (simp add: project_eval)
  have e8_1a: "objects (snd (move declines_all example_project (Some 6) 1)) 5 = objects example_project 5"
    using r8 by (simp add: rejected_with_def local_state_unchanged_def example_project_def)
  have e8_1: "q_children (objects (snd (move declines_all example_project (Some 6) 1)) 5) = [6]"
    unfolding e8_1a by (simp add: project_eval)
  have h9: "declines_all (ReorderAction 1 0 1) = Some ''declined''"
    by (simp add: declines_all_def)
  have g9_0: "ReorderAction 1 0 1 = (ReorderAction 1 0 1 :: nat RfcAction)"
    by simp
  have r9: "rejected_with example_project (ReorderAction 1 0 1) ''declined''
      (reorder declines_all example_project 1 0 1)"
    using rejected_action_leaves_local_state [where resolver = declines_all and a = "ReorderAction 1 0 1" and cause = "''declined''" and p = "example_project" and source = "1" and from_idx = "0" and to_idx = "1",
        OF h9, THEN conjunct2, THEN conjunct2, THEN conjunct2, THEN conjunct2, THEN conjunct2, THEN conjunct2, THEN conjunct2, THEN conjunct2, THEN conjunct1]
      g9_0
    by blast
  have f9: "fst (reorder declines_all example_project 1 0 1)
      = Rejected (RfcError (ReorderAction 1 0 1) ''declined'')"
    using r9 by (simp add: rejected_with_def)
  have e9_0a: "objects (snd (reorder declines_all example_project 1 0 1)) 0 = objects example_project 0"
    using r9 by (simp add: rejected_with_def local_state_unchanged_def example_project_def)
  have e9_0: "q_children (objects (snd (reorder declines_all example_project 1 0 1)) 0) = [1, 2]"
    unfolding e9_0a by (simp add: project_eval)
  have h10: "declines_all (MemberReorderAction member_hp 0 1) = Some ''declined''"
    by (simp add: declines_all_def)
  have g10_0: "MemberReorderAction member_hp 0 1 = MemberReorderAction member_hp 0 1"
    by simp
  have g10_1: "collection_at (q_members (objects example_project 4)) 0 = Some member_hp"
    by (simp add: project_eval collection_at_def)
  have g10_2: "(0::int) \<le> 1"
    by simp
  have g10_3: "1 \<le> int (length (q_members (objects example_project 4)))"
    by (simp add: project_eval)
  have r10: "rejected_with example_project (MemberReorderAction member_hp 0 1) ''declined''
      (reorderMember declines_all example_project 4 0 1)"
    using rejected_action_leaves_local_state [where resolver = declines_all and a = "MemberReorderAction member_hp 0 1" and cause = "''declined''" and p = "example_project" and model = "4" and m = "member_hp" and from_idx = "0" and to_idx = "1",
        OF h10, THEN conjunct2, THEN conjunct2, THEN conjunct2, THEN conjunct2, THEN conjunct2, THEN conjunct2, THEN conjunct2, THEN conjunct2, THEN conjunct2, THEN conjunct1]
      g10_0 g10_1 g10_2 g10_3
    by blast
  have f10: "fst (reorderMember declines_all example_project 4 0 1)
      = Rejected (RfcError (MemberReorderAction member_hp 0 1) ''declined'')"
    using r10 by (simp add: rejected_with_def)
  have e10_0a: "objects (snd (reorderMember declines_all example_project 4 0 1)) 4 = objects example_project 4"
    using r10 by (simp add: rejected_with_def local_state_unchanged_def example_project_def)
  have e10_0: "q_members (objects (snd (reorderMember declines_all example_project 4 0 1)) 4) = [member_hp, member_0]"
    unfolding e10_0a by (simp add: project_eval)
  have h11: "declines_all (MemberValueChangeAction member_hp 10 11) = Some ''declined''"
    by (simp add: declines_all_def)
  have g11_0: "MemberValueChangeAction member_hp 10 11 = MemberValueChangeAction member_hp 10 11"
    by simp
  have r11: "rejected_with example_project (MemberValueChangeAction member_hp 10 11) ''declined''
      (updateMemberValue declines_all example_project member_hp 10 11 (\<lambda>q. (Inr 11, q)))"
    using rejected_action_leaves_local_state [where resolver = declines_all and a = "MemberValueChangeAction member_hp 10 11" and cause = "''declined''" and p = "example_project" and m = "member_hp" and oldValue = "10" and newValue = "11" and changeValue = "(\<lambda>q. (Inr 11, q))",
        OF h11, THEN conjunct2, THEN conjunct2, THEN conjunct2, THEN conjunct2, THEN conjunct2, THEN conjunct2, THEN conjunct2, THEN conjunct2, THEN conjunct2, THEN conjunct2, THEN conjunct1]
      g11_0
    by blast
  have f11: "fst (updateMemberValue declines_all example_project member_hp 10 11 (\<lambda>q. (Inr 11, q)))
      = Rejected (RfcError (MemberValueChangeAction member_hp 10 11) ''declined'')"
    using r11 by (simp add: rejected_with_def)
  have e11_0a: "objects (snd (updateMemberValue declines_all example_project member_hp 10 11 (\<lambda>q. (Inr 11, q)))) 4 = objects example_project 4"
    using r11 by (simp add: rejected_with_def local_state_unchanged_def example_project_def)
  have e11_0: "q_members (objects (snd (updateMemberValue declines_all example_project member_hp 10 11 (\<lambda>q. (Inr 11, q)))) 4) = [member_hp, member_0]"
    unfolding e11_0a by (simp add: project_eval)
  have h12: "declines_all (FieldValueChangeAction field_A 0 1) = Some ''declined''"
    by (simp add: declines_all_def)
  have g12_0: "FieldValueChangeAction field_A 0 1 = FieldValueChangeAction field_A 0 1"
    by simp
  have r12: "rejected_with abc_instance_project (FieldValueChangeAction field_A 0 1) ''declined''
      (updateFieldValue declines_all abc_instance_project field_A 0 1 (\<lambda>q. (Inr 1, q)))"
    using rejected_action_leaves_local_state [where resolver = declines_all and a = "FieldValueChangeAction field_A 0 1" and cause = "''declined''" and p = "abc_instance_project" and fld = "field_A" and oldValue = "0" and newValue = "1" and changeValue = "(\<lambda>q. (Inr 1, q))",
        OF h12, THEN conjunct2, THEN conjunct2, THEN conjunct2, THEN conjunct2, THEN conjunct2, THEN conjunct2, THEN conjunct2, THEN conjunct2, THEN conjunct2, THEN conjunct2, THEN conjunct2, THEN conjunct1]
      g12_0
    by blast
  have f12: "fst (updateFieldValue declines_all abc_instance_project field_A 0 1 (\<lambda>q. (Inr 1, q)))
      = Rejected (RfcError (FieldValueChangeAction field_A 0 1) ''declined'')"
    using r12 by (simp add: rejected_with_def)
  have h13: "declines_all (NamespaceGetChildrenAction 0) = Some ''declined''"
    by (simp add: declines_all_def)
  have g13_0: "NamespaceGetChildrenAction 0 = (children_action Namespace 0 :: nat RfcAction)"
    by (simp add: children_action_def)
  have r13: "rejected_with example_project (NamespaceGetChildrenAction 0) ''declined''
      (updateQualifiedObjects (\<lambda>ty r (xs::nat list) q. (None, q)) declines_all \<lparr>gc_contentsUpdated = True, gc_restore = Some [0::nat]\<rparr> example_project Namespace 0)"
    using rejected_action_leaves_local_state [where resolver = declines_all and a = "NamespaceGetChildrenAction 0" and cause = "''declined''" and p = "example_project" and ty = "Namespace" and parent = "0" and restore_collection = "(\<lambda>ty r (xs::nat list) q. (None, q))" and children_reply = "\<lparr>gc_contentsUpdated = True, gc_restore = Some [0::nat]\<rparr>",
        OF h13, THEN conjunct2, THEN conjunct2, THEN conjunct2, THEN conjunct2, THEN conjunct2, THEN conjunct2, THEN conjunct2, THEN conjunct2, THEN conjunct2, THEN conjunct2, THEN conjunct2, THEN conjunct2, THEN conjunct1]
      g13_0
    by blast
  have f13: "fst (updateQualifiedObjects (\<lambda>ty r (xs::nat list) q. (None, q)) declines_all \<lparr>gc_contentsUpdated = True, gc_restore = Some [0::nat]\<rparr> example_project Namespace 0)
      = Rejected (RfcError (NamespaceGetChildrenAction 0) ''declined'')"
    using r13 by (simp add: rejected_with_def)
  have e13_0a: "objects (snd (updateQualifiedObjects (\<lambda>ty r (xs::nat list) q. (None, q)) declines_all \<lparr>gc_contentsUpdated = True, gc_restore = Some [0::nat]\<rparr> example_project Namespace 0)) 0 = objects example_project 0"
    using r13 by (simp add: rejected_with_def local_state_unchanged_def example_project_def)
  have e13_0: "q_children (objects (snd (updateQualifiedObjects (\<lambda>ty r (xs::nat list) q. (None, q)) declines_all \<lparr>gc_contentsUpdated = True, gc_restore = Some [0::nat]\<rparr> example_project Namespace 0)) 0) = [1, 2]"
    unfolding e13_0a by (simp add: project_eval)
  have h14: "declines_all (NamespaceUpdateAction 1) = Some ''declined''"
    by (simp add: declines_all_def)
  have g14_0: "NamespaceUpdateAction 1 = (update_action (q_type (objects example_project 1)) 1 :: nat RfcAction)"
    by (simp add: update_action_def project_eval)
  have r14: "rejected_with example_project (NamespaceUpdateAction 1) ''declined''
      (updateQualifiedObject (\<lambda>r q. (None, q)) (\<lambda>r (x::nat) q. (None, q)) declines_all (\<lparr>up_contentsUpdated = False, up_restore = None, up_exists = True\<rparr> :: nat UpdateReply) example_project 1)"
    using rejected_action_leaves_local_state [where resolver = declines_all and a = "NamespaceUpdateAction 1" and cause = "''declined''" and p = "example_project" and obj = "1" and orphan = "(\<lambda>r q. (None, q))" and restore_namespace = "(\<lambda>r (x::nat) q. (None, q))" and update_reply = "(\<lparr>up_contentsUpdated = False, up_restore = None, up_exists = True\<rparr> :: nat UpdateReply)",
        OF h14, THEN conjunct2, THEN conjunct2, THEN conjunct2, THEN conjunct2, THEN conjunct2, THEN conjunct2, THEN conjunct2, THEN conjunct2, THEN conjunct2, THEN conjunct2, THEN conjunct2, THEN conjunct2, THEN conjunct2, THEN conjunct1]
      g14_0
    by blast
  have f14: "fst (updateQualifiedObject (\<lambda>r q. (None, q)) (\<lambda>r (x::nat) q. (None, q)) declines_all (\<lparr>up_contentsUpdated = False, up_restore = None, up_exists = True\<rparr> :: nat UpdateReply) example_project 1)
      = Rejected (RfcError (NamespaceUpdateAction 1) ''declined'')"
    using r14 by (simp add: rejected_with_def)
  have h15: "declines_all (NamespaceGetByIdAction 101) = Some ''declined''"
    by (simp add: declines_all_def)
  have g15_0: "NamespaceGetByIdAction 101 = (getById_action Namespace 101 :: nat RfcAction)"
    by (simp add: getById_action_def)
  have g15_1: "warden_get example_project 101 = None"
    by (simp add: warden_get_def example_project_def)
  have r15: "rejected_with example_project (NamespaceGetByIdAction 101) ''declined''
      (getById declines_all (Some ''A'') example_project Namespace 101)"
    using rejected_action_leaves_local_state [where resolver = declines_all and a = "NamespaceGetByIdAction 101" and cause = "''declined''" and p = "example_project" and ty = "Namespace" and i = "101" and restore = "Some ''A''",
        OF h15, THEN conjunct2, THEN conjunct2, THEN conjunct2, THEN conjunct2, THEN conjunct2, THEN conjunct2, THEN conjunct2, THEN conjunct2, THEN conjunct2, THEN conjunct2, THEN conjunct2, THEN conjunct2, THEN conjunct2, THEN conjunct2, THEN conjunct1]
      g15_0 g15_1
    by blast
  have f15: "fst (getById declines_all (Some ''A'') example_project Namespace 101)
      = Rejected (RfcError (NamespaceGetByIdAction 101) ''declined'')"
    using r15 by (simp add: rejected_with_def)
  have h16: "declines_all (MemberGetAction 1) = Some ''declined''"
    by (simp add: declines_all_def)
  have g16_0: "MemberGetAction 1 = (MemberGetAction 1 :: nat RfcAction)"
    by simp
  have g16_1: "q_model (objects abc_instance_project 5) = Some 1"
    by code_simp
  have r16: "rejected_with abc_instance_project (MemberGetAction 1) ''declined''
      (updateFields (\<lambda>r q. (None, q)) (\<lambda>r (x::nat) q. (None, q)) declines_all cad_reply (\<lparr>up_contentsUpdated = False, up_restore = None, up_exists = True\<rparr> :: nat UpdateReply) \<lparr>fg_contentsUpdated = False, fg_results = []\<rparr> abc_instance_project 5)"
    using rejected_action_leaves_local_state [where resolver = declines_all and a = "MemberGetAction 1" and cause = "''declined''" and p = "abc_instance_project" and inst = "5" and model = "1" and orphan = "(\<lambda>r q. (None, q))" and restore_namespace = "(\<lambda>r (x::nat) q. (None, q))" and member_reply = "cad_reply" and update_reply = "(\<lparr>up_contentsUpdated = False, up_restore = None, up_exists = True\<rparr> :: nat UpdateReply)" and field_reply = "\<lparr>fg_contentsUpdated = False, fg_results = []\<rparr>",
        OF h16, THEN conjunct2, THEN conjunct2, THEN conjunct2, THEN conjunct2, THEN conjunct2, THEN conjunct2, THEN conjunct2, THEN conjunct2, THEN conjunct2, THEN conjunct2, THEN conjunct2, THEN conjunct2, THEN conjunct2, THEN conjunct2, THEN conjunct2, THEN conjunct1]
      g16_0 g16_1
    by blast
  have f16: "fst (updateFields (\<lambda>r q. (None, q)) (\<lambda>r (x::nat) q. (None, q)) declines_all cad_reply (\<lparr>up_contentsUpdated = False, up_restore = None, up_exists = True\<rparr> :: nat UpdateReply) \<lparr>fg_contentsUpdated = False, fg_results = []\<rparr> abc_instance_project 5)
      = Rejected (RfcError (MemberGetAction 1) ''declined'')"
    using r16 by (simp add: rejected_with_def)
  have e16_0a: "objects (snd (updateFields (\<lambda>r q. (None, q)) (\<lambda>r (x::nat) q. (None, q)) declines_all cad_reply (\<lparr>up_contentsUpdated = False, up_restore = None, up_exists = True\<rparr> :: nat UpdateReply) \<lparr>fg_contentsUpdated = False, fg_results = []\<rparr> abc_instance_project 5)) 1 = objects abc_instance_project 1"
    using r16 by (simp add: rejected_with_def local_state_unchanged_def abc_instance_project_def abc_project_def)
  have e16_0: "q_members (objects (snd (updateFields (\<lambda>r q. (None, q)) (\<lambda>r (x::nat) q. (None, q)) declines_all cad_reply (\<lparr>up_contentsUpdated = False, up_restore = None, up_exists = True\<rparr> :: nat UpdateReply) \<lparr>fg_contentsUpdated = False, fg_results = []\<rparr> abc_instance_project 5)) 1) = [member_A, member_B, member_C]"
    unfolding e16_0a by code_simp
  have h17: "declines_InstanceUpdate (InstanceUpdateAction 5) = Some ''declined''"
    by (simp add: declines_InstanceUpdate_def)
  have g17_0: "InstanceUpdateAction 5 = (update_action (q_type (objects (snd (updateMembers declines_InstanceUpdate cad_reply abc_instance_project 1)) 5)) 5 :: nat RfcAction)"
    by code_simp
  have g17_1: "q_model (objects abc_instance_project 5) = Some 1"
    by code_simp
  have g17_2f: "fst (updateMembers declines_InstanceUpdate cad_reply abc_instance_project 1) = Resolved []"
    by code_simp
  have g17_2: "updateMembers declines_InstanceUpdate cad_reply abc_instance_project 1 = (Resolved [], (snd (updateMembers declines_InstanceUpdate cad_reply abc_instance_project 1)))"
    using g17_2f by (simp add: prod_eq_iff)
  have r17: "rejected_with (snd (updateMembers declines_InstanceUpdate cad_reply abc_instance_project 1)) (InstanceUpdateAction 5) ''declined''
      (updateFields (\<lambda>r q. (None, q)) (\<lambda>r (x::nat) q. (None, q)) declines_InstanceUpdate cad_reply (\<lparr>up_contentsUpdated = False, up_restore = None, up_exists = True\<rparr> :: nat UpdateReply) \<lparr>fg_contentsUpdated = False, fg_results = []\<rparr> abc_instance_project 5)"
    using rejected_action_leaves_local_state [where resolver = declines_InstanceUpdate and a = "InstanceUpdateAction 5" and cause = "''declined''" and p = "abc_instance_project" and inst = "5" and model = "1" and orphan = "(\<lambda>r q. (None, q))" and restore_namespace = "(\<lambda>r (x::nat) q. (None, q))" and member_reply = "cad_reply" and update_reply = "(\<lparr>up_contentsUpdated = False, up_restore = None, up_exists = True\<rparr> :: nat UpdateReply)" and field_reply = "\<lparr>fg_contentsUpdated = False, fg_results = []\<rparr>" and pm = "(snd (updateMembers declines_InstanceUpdate cad_reply abc_instance_project 1))" and ms = "[]",
        OF h17, THEN conjunct2, THEN conjunct2, THEN conjunct2, THEN conjunct2, THEN conjunct2, THEN conjunct2, THEN conjunct2, THEN conjunct2, THEN conjunct2, THEN conjunct2, THEN conjunct2, THEN conjunct2, THEN conjunct2, THEN conjunct2, THEN conjunct2, THEN conjunct2, THEN conjunct1]
      g17_0 g17_1 g17_2
    by blast
  have f17: "fst (updateFields (\<lambda>r q. (None, q)) (\<lambda>r (x::nat) q. (None, q)) declines_InstanceUpdate cad_reply (\<lparr>up_contentsUpdated = False, up_restore = None, up_exists = True\<rparr> :: nat UpdateReply) \<lparr>fg_contentsUpdated = False, fg_results = []\<rparr> abc_instance_project 5)
      = Rejected (RfcError (InstanceUpdateAction 5) ''declined'')"
    using r17 by (simp add: rejected_with_def)
  have h18: "declines_FieldGet (FieldGetAction 5) = Some ''declined''"
    by (simp add: declines_FieldGet_def)
  have g18_0: "FieldGetAction 5 = (FieldGetAction 5 :: nat RfcAction)"
    by simp
  have g18_1: "q_model (objects abc_instance_project 5) = Some 1"
    by code_simp
  have g18_2f: "fst (updateMembers declines_FieldGet cad_reply abc_instance_project 1) = Resolved []"
    by code_simp
  have g18_2: "updateMembers declines_FieldGet cad_reply abc_instance_project 1 = (Resolved [], (snd (updateMembers declines_FieldGet cad_reply abc_instance_project 1)))"
    using g18_2f by (simp add: prod_eq_iff)
  have g18_3f: "fst (updateQualifiedObject (\<lambda>r q. (None, q)) (\<lambda>r (x::nat) q. (None, q)) declines_FieldGet (\<lparr>up_contentsUpdated = False, up_restore = None, up_exists = True\<rparr> :: nat UpdateReply) (snd (updateMembers declines_FieldGet cad_reply abc_instance_project 1)) 5) = Resolved ()"
    by code_simp
  have g18_3: "updateQualifiedObject (\<lambda>r q. (None, q)) (\<lambda>r (x::nat) q. (None, q)) declines_FieldGet (\<lparr>up_contentsUpdated = False, up_restore = None, up_exists = True\<rparr> :: nat UpdateReply) (snd (updateMembers declines_FieldGet cad_reply abc_instance_project 1)) 5 = (Resolved (), (snd (updateQualifiedObject (\<lambda>r q. (None, q)) (\<lambda>r (x::nat) q. (None, q)) declines_FieldGet (\<lparr>up_contentsUpdated = False, up_restore = None, up_exists = True\<rparr> :: nat UpdateReply) (snd (updateMembers declines_FieldGet cad_reply abc_instance_project 1)) 5)))"
    using g18_3f by (simp add: prod_eq_iff)
  have r18: "rejected_with (snd (updateQualifiedObject (\<lambda>r q. (None, q)) (\<lambda>r (x::nat) q. (None, q)) declines_FieldGet (\<lparr>up_contentsUpdated = False, up_restore = None, up_exists = True\<rparr> :: nat UpdateReply) (snd (updateMembers declines_FieldGet cad_reply abc_instance_project 1)) 5)) (FieldGetAction 5) ''declined''
      (updateFields (\<lambda>r q. (None, q)) (\<lambda>r (x::nat) q. (None, q)) declines_FieldGet cad_reply (\<lparr>up_contentsUpdated = False, up_restore = None, up_exists = True\<rparr> :: nat UpdateReply) \<lparr>fg_contentsUpdated = False, fg_results = []\<rparr> abc_instance_project 5)"
    using rejected_action_leaves_local_state [where resolver = declines_FieldGet and a = "FieldGetAction 5" and cause = "''declined''" and p = "abc_instance_project" and inst = "5" and model = "1" and orphan = "(\<lambda>r q. (None, q))" and restore_namespace = "(\<lambda>r (x::nat) q. (None, q))" and member_reply = "cad_reply" and update_reply = "(\<lparr>up_contentsUpdated = False, up_restore = None, up_exists = True\<rparr> :: nat UpdateReply)" and field_reply = "\<lparr>fg_contentsUpdated = False, fg_results = []\<rparr>" and pm = "(snd (updateMembers declines_FieldGet cad_reply abc_instance_project 1))" and ms = "[]" and po = "(snd (updateQualifiedObject (\<lambda>r q. (None, q)) (\<lambda>r (x::nat) q. (None, q)) declines_FieldGet (\<lparr>up_contentsUpdated = False, up_restore = None, up_exists = True\<rparr> :: nat UpdateReply) (snd (updateMembers declines_FieldGet cad_reply abc_instance_project 1)) 5))" and u = "()",
        OF h18, THEN conjunct2, THEN conjunct2, THEN conjunct2, THEN conjunct2, THEN conjunct2, THEN conjunct2, THEN conjunct2, THEN conjunct2, THEN conjunct2, THEN conjunct2, THEN conjunct2, THEN conjunct2, THEN conjunct2, THEN conjunct2, THEN conjunct2, THEN conjunct2, THEN conjunct2]
      g18_0 g18_1 g18_2 g18_3
    by blast
  have f18: "fst (updateFields (\<lambda>r q. (None, q)) (\<lambda>r (x::nat) q. (None, q)) declines_FieldGet cad_reply (\<lparr>up_contentsUpdated = False, up_restore = None, up_exists = True\<rparr> :: nat UpdateReply) \<lparr>fg_contentsUpdated = False, fg_results = []\<rparr> abc_instance_project 5)
      = Rejected (RfcError (FieldGetAction 5) ''declined'')"
    using r18 by (simp add: rejected_with_def)
  show ?thesis
    by (intro conjI) (fact f1 e1_0 f2 e2_0 f3 e3_0 f4 e4_0 f5 e5_0 f6 e6_0 f7 e7_0 f8 e8_0 e8_1 f9 e9_0 f10 e10_0 f11 e11_0 f12 f13 e13_0 f14 f15 f16 e16_0 f17 f18)+
qed

text \<open>
  Claim C2, counterexample to the claim as stated (no local mutation when the resolver
  rejects and the operation raises).  \<open>updateFields\<close> on the Instance of the model with the
  Members A, B, C: the resolver accepts the \<open>MemberGetAction\<close>, reporting the Members C, A,
  D, accepts the update of the Instance and declines the \<open>FieldGetAction\<close>.  The operation
  rejects with \<open>RfcError\<close> for the \<open>FieldGetAction\<close>, and the Members of the model are no
  longer A, B, C but C, A, D.
\<close>

theorem updateFields_mutates_before_rejection_counterexample:
  "fst (updateFields (\<lambda>r q. (None, q)) (\<lambda>r (x::nat) q. (None, q)) declines_FieldGet cad_reply
          \<lparr>up_contentsUpdated = False, up_restore = None, up_exists = True\<rparr>
          \<lparr>fg_contentsUpdated = False, fg_results = []\<rparr> abc_instance_project 5)
     = Rejected (RfcError (FieldGetAction 5) ''declined'')
   \<and> submitted (snd (updateFields (\<lambda>r q. (None, q)) (\<lambda>r (x::nat) q. (None, q)) declines_FieldGet cad_reply
          \<lparr>up_contentsUpdated = False, up_restore = None, up_exists = True\<rparr>
          \<lparr>fg_contentsUpdated = False, fg_results = []\<rparr> abc_instance_project 5))
     = [MemberGetAction 1, InstanceUpdateAction 5, FieldGetAction 5]
   \<and> q_members (objects abc_instance_project 1) = [member_A, member_B, member_C]
   \<and> q_members (objects (snd (updateFields (\<lambda>r q. (None, q)) (\<lambda>r (x::nat) q. (None, q)) declines_FieldGet cad_reply
          \<lparr>up_contentsUpdated = False, up_restore = None, up_exists = True\<rparr>
          \<lparr>fg_contentsUpdated = False, fg_results = []\<rparr> abc_instance_project 5)) 1)
     = [member_C, member_A, \<lparr>mem_ref = 7, mem_id = 4, mem_name = ''D'', mem_value = 0\<rparr>]"
  by code_simp

text \<open>
  Claim C4.  In a model whose Members A, B, C have the identifiers 1, 2, 3, reconciling
  with the list C, A, D (identifiers 3, 1, 4) applies one addition (D, a new Member with
  a new reference, at index 2), one removal (B) and one move (C to the front); the Members
  are then C, A, D, and C and A are the Members that were there before, references
  included.
\<close>

theorem syncToMaster_example:
  "fst (syncToMaster 1 cad_master abc_project)
     = [SyncAdd \<lparr>mem_ref = 5, mem_id = 4, mem_name = ''D'', mem_value = 0\<rparr> 2,
        SyncRemove member_B 1,
        SyncMove member_C 2 0]
   \<and> q_members (objects (snd (syncToMaster 1 cad_master abc_project)) 1)
     = [member_C, member_A, \<lparr>mem_ref = 5, mem_id = 4, mem_name = ''D'', mem_value = 0\<rparr>]
   \<and> q_members (objects abc_project 1) = [member_A, member_B, member_C]
   \<and> map mem_id [member_A, member_B, member_C] = [1, 2, 3]
   \<and> map ri_id cad_master = [3, 1, 4]
   \<and> allocated abc_project = 5"
  by code_simp

text \<open>
  Claim C5, as amended.  \<open>move\<close> rejects with \<open>ArgumentError\<close> when the source is the root or
  has no parent, and resolves with the source when the destination is already its parent;
  in these cases the state is as before, so nothing is submitted.  Past these checks, when
  the destination is found in the project under its qualified name and its collection of
  the source's type holds an object of the source's name, \<open>move\<close> rejects with
  \<open>NameCollisionError\<close>; when the destination is not found in the project, it rejects with
  \<open>ArgumentError\<close>.
\<close>

theorem move_checks_before_submitting:
  fixes p :: "'v Project"
  shows "(source = p_root p \<longrightarrow>
            move resolver p (Some source) to = (Rejected (ArgumentError SourceIsRoot), p))
       \<and> (source \<noteq> p_root p \<and> q_parent (objects p source) = None \<longrightarrow>
            move resolver p (Some source) to = (Rejected (ArgumentError SourceHasNoParent), p))
       \<and> (source \<noteq> p_root p \<and> q_parent (objects p source) = Some to \<longrightarrow>
            move resolver p (Some source) to = (Resolved source, p))
       \<and> (source \<noteq> p_root p \<and> q_parent (objects p source) = Some old \<and> old \<noteq> to
            \<and> qualifiedName p to = Some toName \<and> project_get p Namespace toName = Some found
            \<and> collection_get (objects p) (collection_of (q_type (objects p source)) (objects p to))
                 (q_name (objects p source)) = Some other \<longrightarrow>
            move resolver p (Some source) to = (Rejected NameCollisionError, p))
       \<and> (source \<noteq> p_root p \<and> q_parent (objects p source) = Some old \<and> old \<noteq> to
            \<and> qualifiedName p to = Some toName \<and> project_get p Namespace toName = None \<longrightarrow>
            move resolver p (Some source) to = (Rejected (ArgumentError ToNotInProject), p))"
  by (simp add: move_def)

text \<open>
  Claim C5, witness: in the example project, moving the root, the parentless namespace 5,
  the namespace 3 to its own parent, the namespace A (1) to B, which holds an A, and the
  namespace A (1) to the namespace 5, which is not in the project.
\<close>

theorem move_checks_before_submitting_witness:
  "move (\<lambda>a. None) example_project (Some 0) 2 = (Rejected (ArgumentError SourceIsRoot), example_project)
   \<and> move (\<lambda>a. None) example_project (Some 5) 2 = (Rejected (ArgumentError SourceHasNoParent), example_project)
   \<and> move (\<lambda>a. None) example_project (Some 3) 2 = (Resolved 3, example_project)
   \<and> move (\<lambda>a. None) example_project (Some 1) 2 = (Rejected NameCollisionError, example_project)
   \<and> move (\<lambda>a. None) example_project (Some 1) 5 = (Rejected (ArgumentError ToNotInProject), example_project)"
proof -
  have r: "p_root example_project = 0" by (simp add: example_project_def)
  have a: "move (\<lambda>a. None) example_project (Some 0) 2 = (Rejected (ArgumentError SourceIsRoot), example_project)"
    using move_checks_before_submitting [of 0 example_project "\<lambda>a. None" 2] r by simp
  have p5: "q_parent (objects example_project 5) = None" by (simp add: project_eval)
  have b: "move (\<lambda>a. None) example_project (Some 5) 2 = (Rejected (ArgumentError SourceHasNoParent), example_project)"
    using move_checks_before_submitting [of 5 example_project "\<lambda>a. None" 2] r p5 by simp
  have p3: "q_parent (objects example_project 3) = Some 2" by (simp add: project_eval)
  have c: "move (\<lambda>a. None) example_project (Some 3) 2 = (Resolved 3, example_project)"
    using move_checks_before_submitting [of 3 example_project "\<lambda>a. None" 2] r p3 by simp
  have p1: "q_parent (objects example_project 1) = Some 0" by (simp add: project_eval)
  have n2: "qualifiedName example_project 2 = Some ''B''" by (simp add: project_eval)
  have g2: "project_get example_project Namespace ''B'' = Some 2" by (simp add: project_eval)
  have c2: "collection_get (objects example_project)
              (collection_of (q_type (objects example_project 1)) (objects example_project 2))
              (q_name (objects example_project 1)) = Some 3"
    by (simp add: project_eval)
  have d: "move (\<lambda>a. None) example_project (Some 1) 2 = (Rejected NameCollisionError, example_project)"
    using move_checks_before_submitting [of 1 example_project "\<lambda>a. None" 2 0 "''B''" 2 3] r p1 n2 g2 c2
    by simp
  have n5: "qualifiedName example_project 5 = Some ''Other''" by (simp add: project_eval)
  have g5: "project_get example_project Namespace ''Other'' = None" by (simp add: project_eval)
  have e: "move (\<lambda>a. None) example_project (Some 1) 5 = (Rejected (ArgumentError ToNotInProject), example_project)"
    using move_checks_before_submitting [of 1 example_project "\<lambda>a. None" 5 0 "''Other''"] r p1 n5 g5
    by simp
  from a b c d e show ?thesis by simp
qed

text \<open>
  Claim C5, counterexample to the claim as stated.  The namespace 5 holds a namespace named
  A, and is itself in no namespace of the project; moving the namespace A (1) of the root
  to it rejects with \<open>ArgumentError\<close>, not with \<open>NameCollisionError\<close>.
\<close>

theorem move_collision_counterexample:
  "collection_get (objects example_project) (q_children (objects example_project 5))
       (q_name (objects example_project 1)) = Some 6
   \<and> q_type (objects example_project 1) = Namespace
   \<and> move (\<lambda>a. None) example_project (Some 1) 5
       = (Rejected (ArgumentError ToNotInProject), example_project)"
  by (simp add: move_def example_project_def example_objects_def blank_object_def
      collection_get_def collection_of_def qualifiedName_def project_get_def parentPath_def basename_def
      eval_nat_numeral)

text \<open>
  Claim C7.  \<open>deleteMembers\<close> selects with \<open>member.name in names\<close>, which asks whether the
  name is a property key of the array, not whether it is one of its elements.  In the
  example model, whose Members are named \<open>hp\<close> and \<open>0\<close>, \<open>deleteMembers(model, ['hp'])\<close>
  that the resolver accepts removes and returns the Member \<open>0\<close> and leaves \<open>hp\<close>.
\<close>

theorem deleteMembers_selects_by_key_not_by_name:
  "fst (deleteMembers es2019_array_inherited (\<lambda>a. None) example_project 4 [''hp''])
     = Resolved [\<lparr>item = member_0, index = 1\<rparr>]
   \<and> q_members (objects (snd (deleteMembers es2019_array_inherited (\<lambda>a. None) example_project 4 [''hp''])) 4)
     = [member_hp]
   \<and> q_members (objects example_project 4) = [member_hp, member_0]
   \<and> mem_name member_hp = ''hp'' \<and> mem_name member_0 = ''0''"
  by code_simp

end
